theory Spec2Isabelle
  imports Complex_Main
begin

section \<open>Common data: outcomes of external calls, counts, JSON values\<close>

text \<open>
  Every call that leaves the plugin (the backend client, the undo service, the action
  dispatcher, the Premiere Pro scripting bridge) either returns a value or throws.
  A thrown value is kept as the text the handlers print (\<^verbatim>\<open>err.message || err\<close>).
\<close>

datatype 'a outcome = Threw string | Returned 'a

text \<open>The aggregate result \<^verbatim>\<open>{ successful, failed }\<close> of a batch operation.\<close>

record counts =
  successful :: nat
  failed :: nat

text \<open>Parameter values as they arrive in the backend's JSON answer.\<close>

datatype jsval = JNum real | JStr string | JBool bool | JNull

type_synonym params = "(string \<times> jsval) list"

section \<open>The plugin container (src/frontend/src/components/container.jsx)\<close>

subsection \<open>State\<close>

text \<open>
  One entry of \<^verbatim>\<open>editHistory\<close>, as \<^verbatim>\<open>editClips\<close> builds it:
  \<^verbatim>\<open>{ actionName, trackItems, previousState, parameters }\<close>. Track items and the
  snapshot are opaque references into the host.
\<close>

record ('i, 's) historyEntry =
  actionName :: string
  trackItems :: "'i list"
  previousState :: 's
  parameters :: params

text \<open>
  The lines written to the chat console. Each constructor stands for one
  \<^verbatim>\<open>writeToConsole\<close> call site of the source and carries the values interpolated
  into its text.
\<close>

datatype console_msg =
    Welcome                         \<comment> \<open>the initial bot message\<close>
  | NoEditsToUndo                   \<comment> \<open>"No ChatCut edits to undo."\<close>
  | TipMakeNewEdit                  \<comment> \<open>"Tip: Make a new ChatCut edit first, ..."\<close>
  | CouldNotFindEntry               \<comment> \<open>"Could not find edit history entry to undo."\<close>
  | AttemptingUndo int nat string   \<comment> \<open>"Attempting to undo ChatCut edit k of n (name)..."\<close>
  | UndoCompleted nat               \<comment> \<open>"Undo completed! Reversed k clip(s)."\<close>
  | FailedToUndo nat                \<comment> \<open>"Failed to undo k clip(s)."\<close>
  | UndoFailed                      \<comment> \<open>"Undo failed - could not reverse the edit."\<close>
  | UndoFailedWithError string      \<comment> \<open>"Undo failed with error: ..."\<close>
  | RedoNotImplemented              \<comment> \<open>"Redo is not yet implemented. ..."\<close>
  | NoClipsSelected                 \<comment> \<open>"No clips selected. Please select at least one clip ..."\<close>
  | FoundClips nat                  \<comment> \<open>"Found n selected clip(s)"\<close>
  | SendingToAI string              \<comment> \<open>"Sending to AI: ..."\<close>
  | NoFilePaths                     \<comment> \<open>"No accessible file paths found. Falling back ..."\<close>
  | TipOfflineClips                 \<comment> \<open>"Tip: Make sure clips are not offline ..."\<close>
  | SendingMedia nat                \<comment> \<open>"Sending n media file path(s) to Backend"\<close>
  | FileAccessFallback              \<comment> \<open>"File access error. Falling back to prompt-only mode."\<close>
  | AIExtracted string "params option" \<comment> \<open>"AI extracted: action with parameters: ..."\<close>
  | AIMessage string                \<comment> \<open>"AI message: ..."\<close>
  | Plain string                    \<comment> \<open>the small-talk reply, printed as it is\<close>
  | Thinking "string option"        \<comment> \<open>the NEEDS_SELECTION / NEEDS_SPECIFICATION line\<close>
  | CouldNotUnderstand string       \<comment> \<open>"AI couldn't understand: ..."\<close>
  | ErrorCode string                \<comment> \<open>"Error: code" after the line above\<close>
  | CapturingPreviousState          \<comment> \<open>"Capturing previous state for undo..."\<close>
  | ActionApplied nat               \<comment> \<open>"Action applied successfully to k clip(s)!"\<close>
  | FailedOn nat                    \<comment> \<open>"Failed on k clip(s)"\<close>
  | UsePanelUndo                    \<comment> \<open>"Use the panel's Undo button to revert ChatCut edits only."\<close>
  | FailedToApply                   \<comment> \<open>"Failed to apply action to any clips. ..."\<close>
  | ErrorText string                \<comment> \<open>"Error: ..." of the catch block\<close>
  | HintStartBackend                \<comment> \<open>"Hint: Start the backend: ..."\<close>
  | HintBackendPort                 \<comment> \<open>"Hint: Make sure the backend server is running on port 3001"\<close>

text \<open>
  The React state of \<^verbatim>\<open>Container\<close>: the four \<^verbatim>\<open>useState\<close> cells. The undo
  counter is a JavaScript number; it is an \<^typ>\<open>int\<close> here so that the subtractions of
  the source are not truncated.
\<close>

record ('i, 's) session =
  message :: "console_msg list"
  processMediaMode :: bool
  editHistory :: "('i, 's) historyEntry list"
  chatCutUndosCount :: int

definition initial :: "('i, 's) session" where
  "initial = \<lparr> message = [Welcome], processMediaMode = True,
               editHistory = [], chatCutUndosCount = 0 \<rparr>"

definition writeToConsole :: "console_msg \<Rightarrow> ('i, 's) session \<Rightarrow> ('i, 's) session" where
  "writeToConsole m st = st\<lparr> message := message st @ [m] \<rparr>"

subsection \<open>JavaScript array primitives used by the handlers\<close>

text \<open>\<^verbatim>\<open>xs[i]\<close>: \<^verbatim>\<open>undefined\<close> (here \<open>None\<close>) outside \<open>0 .. length - 1\<close>.\<close>

definition js_index :: "'a list \<Rightarrow> int \<Rightarrow> 'a option" where
  "js_index xs i = (if 0 \<le> i \<and> i < int (length xs) then Some (xs ! nat i) else None)"

text \<open>
  \<^verbatim>\<open>xs.slice(0, e)\<close>: a negative end counts from the end of the array, and the end is
  clamped to \<open>0 .. length\<close>.
\<close>

definition js_slice0 :: "'a list \<Rightarrow> int \<Rightarrow> 'a list" where
  "js_slice0 xs e =
     (let len = int (length xs);
          final = (if e < 0 then max (len + e) 0 else min e len)
      in take (nat final) xs)"

text \<open>\<^verbatim>\<open>s.includes(t)\<close> on strings.\<close>

fun js_includes :: "string \<Rightarrow> string \<Rightarrow> bool" where
  "js_includes [] t = (t = [])"
| "js_includes (c # s) t = (take (length t) (c # s) = t \<or> js_includes s t)"

subsection \<open>The services the container imports\<close>

text \<open>
  The normalized answer of the backend (\<^verbatim>\<open>ActionResult\<close>), as the container reads it.
  An absent field is \<open>None\<close>.
\<close>

record actionResult =
  r_action :: "string option"
  r_actions :: "(string \<times> params) list"
  r_parameters :: "params option"
  r_confidence :: real
  r_message :: "string option"
  r_error :: "string option"

text \<open>
  \<^verbatim>\<open>backendClient\<close>, \<^verbatim>\<open>clipUtils\<close>, \<^verbatim>\<open>undoService\<close> and
  \<^verbatim>\<open>actionDispatcher\<close> are imported by the container; they act on the host
  application and the network. They are parameters of the model: each takes the state
  \<open>'w\<close> of the world outside the session and returns its outcome with the new world.
\<close>

record ('i, 's, 'w) services =
  getSelectedMediaFilePaths :: "'w \<Rightarrow> string list outcome \<times> 'w"
  processPrompt :: "string \<Rightarrow> 'w \<Rightarrow> actionResult outcome \<times> 'w"
  processMedia :: "string list \<Rightarrow> string \<Rightarrow> 'w \<Rightarrow> actionResult outcome \<times> 'w"
  capturePreviousState :: "'i list \<Rightarrow> string \<Rightarrow> 'w \<Rightarrow> 's outcome \<times> 'w"
  dispatchAction :: "string \<Rightarrow> 'i list \<Rightarrow> params \<Rightarrow> 'w \<Rightarrow> counts outcome \<times> 'w"
  executeUndo :: "('i, 's) historyEntry \<Rightarrow> 'w \<Rightarrow> counts outcome \<times> 'w"

subsection \<open>handleUndo, handleRedo, canUndo\<close>

text \<open>
  A handler reads \<^verbatim>\<open>editHistory\<close> and \<^verbatim>\<open>chatCutUndosCount\<close> from its closure,
  that is, as they were when it was started, and it writes through the setters.
  \<open>handleUndo\<close> below is one whole run of the handler with no other handler in
  between: the state it is started in is still the current one when its updates are
  applied. The two parts of the handler around its \<^verbatim>\<open>await\<close> follow further down, for
  the runs in which handlers overlap.
\<close>

definition handleUndo ::
  "('i, 's, 'w) services \<Rightarrow> ('i, 's) session \<Rightarrow> 'w \<Rightarrow> ('i, 's) session \<times> 'w" where
  "handleUndo sv st w =
     (let remainingEdits = int (length (editHistory st)) - chatCutUndosCount st in
      if remainingEdits \<le> 0
      then (writeToConsole TipMakeNewEdit (writeToConsole NoEditsToUndo st), w)
      else
        let editIndex = int (length (editHistory st)) - chatCutUndosCount st - 1 in
        case js_index (editHistory st) editIndex of
          None \<Rightarrow> (writeToConsole CouldNotFindEntry st, w)
        | Some entry \<Rightarrow>
            (let st1 = writeToConsole
                   (AttemptingUndo (chatCutUndosCount st + 1) (length (editHistory st))
                      (actionName entry)) st
             in case executeUndo sv entry w of
                  (Returned result, w') \<Rightarrow>
                    (if successful result > 0
                     then
                       let st2 = st1\<lparr> chatCutUndosCount := chatCutUndosCount st1 + 1 \<rparr>;
                           st3 = writeToConsole (UndoCompleted (successful result)) st2
                       in (if failed result > 0
                           then writeToConsole (FailedToUndo (failed result)) st3
                           else st3, w')
                     else (writeToConsole UndoFailed st1, w'))
                | (Threw err, w') \<Rightarrow> (writeToConsole (UndoFailedWithError err) st1, w')))"

text \<open>
  \<^verbatim>\<open>handleUndo\<close> up to its \<^verbatim>\<open>await\<close> (lines 57 to 82): the test on the closure's
  history and cursor, the choice of the entry, and the first line on the console. The
  result tells which entry is handed to \<^verbatim>\<open>executeUndo\<close>, if any.
\<close>

definition handleUndo_start ::
  "('i, 's) session \<Rightarrow> ('i, 's) session \<times> ('i, 's) historyEntry option" where
  "handleUndo_start st =
     (let remainingEdits = int (length (editHistory st)) - chatCutUndosCount st in
      if remainingEdits \<le> 0
      then (writeToConsole TipMakeNewEdit (writeToConsole NoEditsToUndo st), None)
      else
        let editIndex = int (length (editHistory st)) - chatCutUndosCount st - 1 in
        case js_index (editHistory st) editIndex of
          None \<Rightarrow> (writeToConsole CouldNotFindEntry st, None)
        | Some entry \<Rightarrow>
            (writeToConsole
               (AttemptingUndo (chatCutUndosCount st + 1) (length (editHistory st))
                  (actionName entry)) st,
             Some entry))"

text \<open>
  \<^verbatim>\<open>handleUndo\<close> after its \<^verbatim>\<open>await\<close> (lines 85 to 104), for the outcome of
  \<^verbatim>\<open>executeUndo\<close>. Its updates are functional (\<^verbatim>\<open>prev => prev + 1\<close>, and the
  append of \<^verbatim>\<open>addMessage\<close>), so they act on the state that is current when this part
  runs, which other handlers may have changed since the start.
\<close>

definition handleUndo_finish ::
  "counts outcome \<Rightarrow> ('i, 's) session \<Rightarrow> ('i, 's) session" where
  "handleUndo_finish out st =
     (case out of
        Returned result \<Rightarrow>
          (if successful result > 0
           then
             let st2 = st\<lparr> chatCutUndosCount := chatCutUndosCount st + 1 \<rparr>;
                 st3 = writeToConsole (UndoCompleted (successful result)) st2
             in if failed result > 0
                then writeToConsole (FailedToUndo (failed result)) st3
                else st3
           else writeToConsole UndoFailed st)
      | Threw err \<Rightarrow> writeToConsole (UndoFailedWithError err) st)"

definition handleRedo :: "('i, 's) session \<Rightarrow> ('i, 's) session" where
  "handleRedo st = writeToConsole RedoNotImplemented st"

definition canUndo :: "('i, 's) session \<Rightarrow> bool" where
  "canUndo st = (int (length (editHistory st)) > chatCutUndosCount st)"

subsection \<open>editClips\<close>

text \<open>
  JavaScript truthiness of an optional string: \<^verbatim>\<open>undefined\<close> and the empty string
  are falsy.
\<close>

definition js_or :: "string option \<Rightarrow> string \<Rightarrow> string" where
  "js_or v d = (case v of None \<Rightarrow> d | Some s \<Rightarrow> if s = [] then d else s)"

text \<open>
  Lines 241 to 263 of \<^verbatim>\<open>editClips\<close>: the update of \<^verbatim>\<open>editHistory\<close> and the
  reset of \<^verbatim>\<open>chatCutUndosCount\<close> once an edit has been applied (what the
  specification calls \<^verbatim>\<open>recordEdit\<close>).
\<close>

definition recordEdit :: "('i, 's) historyEntry \<Rightarrow> ('i, 's) session \<Rightarrow> ('i, 's) session" where
  "recordEdit entry st =
     (let currentUndoCount = chatCutUndosCount st;
          prev = editHistory st;
          newHistory =
            (if currentUndoCount > 0
             then js_slice0 prev (int (length prev) - currentUndoCount) @ [entry]
             else prev @ [entry]);
          st1 = st\<lparr> editHistory := newHistory \<rparr>
      in if currentUndoCount > 0 then st1\<lparr> chatCutUndosCount := 0 \<rparr> else st1)"

text \<open>
  The same lines when other handlers have run since \<^verbatim>\<open>editClips\<close> was started:
  \<^verbatim>\<open>currentUndoCount\<close> is the cursor of the closure, while the updater of
  \<^verbatim>\<open>setEditHistory\<close> works on the history that is current when it is applied.
\<close>

definition recordEditWith ::
  "int \<Rightarrow> ('i, 's) historyEntry \<Rightarrow> ('i, 's) session \<Rightarrow> ('i, 's) session" where
  "recordEditWith currentUndoCount entry st =
     (let prev = editHistory st;
          newHistory =
            (if currentUndoCount > 0
             then js_slice0 prev (int (length prev) - currentUndoCount) @ [entry]
             else prev @ [entry]);
          st1 = st\<lparr> editHistory := newHistory \<rparr>
      in if currentUndoCount > 0 then st1\<lparr> chatCutUndosCount := 0 \<rparr> else st1)"

text \<open>Lines 182 to 201: the choice between the media flow and the prompt flow.\<close>

definition queryAI ::
  "('i, 's, 'w) services \<Rightarrow> ('i, 's) session \<Rightarrow> 'w \<Rightarrow> string
     \<Rightarrow> actionResult outcome \<times> ('i, 's) session \<times> 'w" where
  "queryAI sv st w text =
     (if processMediaMode st
      then
        (case getSelectedMediaFilePaths sv w of
           (Threw err, w1) \<Rightarrow> (Threw err, st, w1)
         | (Returned filePaths, w1) \<Rightarrow>
             (if length filePaths = 0
              then
                let st1 = writeToConsole TipOfflineClips (writeToConsole NoFilePaths st)
                in (case processPrompt sv text w1 of (res, w2) \<Rightarrow> (res, st1, w2))
              else
                let st1 = writeToConsole (SendingMedia (length filePaths)) st
                in (case processMedia sv filePaths text w1 of
                      (Threw err, w2) \<Rightarrow> (Threw err, st1, w2)
                    | (Returned aiResponse, w2) \<Rightarrow>
                        (if r_error aiResponse = Some ''FILE_ACCESS_ERROR''
                         then
                           let st2 = writeToConsole FileAccessFallback st1
                           in (case processPrompt sv text w2 of
                                 (res, w3) \<Rightarrow> (res, st2, w3))
                         else (Returned aiResponse, st1, w2)))))
      else (case processPrompt sv text w of (res, w1) \<Rightarrow> (res, st, w1)))"

text \<open>Lines 210 to 221: the answer carries no action.\<close>

definition reportNoAction :: "actionResult \<Rightarrow> ('i, 's) session \<Rightarrow> ('i, 's) session" where
  "reportNoAction aiResponse st =
     (if r_error aiResponse = Some ''SMALL_TALK''
      then writeToConsole
             (Plain (js_or (r_message aiResponse) ''Hi! How can I help edit your video?'')) st
      else if r_error aiResponse = Some ''NEEDS_SELECTION''
                \<or> r_error aiResponse = Some ''NEEDS_SPECIFICATION''
      then writeToConsole (Thinking (r_message aiResponse)) st
      else
        let st1 = writeToConsole
                    (CouldNotUnderstand
                       (js_or (r_message aiResponse)
                          ''Try: 'zoom in by 120%', 'zoom out', etc.'')) st
        in if js_or (r_error aiResponse) [] \<noteq> []
           then writeToConsole (ErrorCode (js_or (r_error aiResponse) [])) st1
           else st1)"

text \<open>Lines 272 to 283: the catch block.\<close>

definition reportError :: "string \<Rightarrow> ('i, 's) session \<Rightarrow> ('i, 's) session" where
  "reportError errorMessage st =
     (let st1 = writeToConsole (ErrorText errorMessage) st
      in if js_includes errorMessage ''Backend server is not running''
         then writeToConsole HintStartBackend st1
         else if js_includes errorMessage ''503''
                   \<or> js_includes errorMessage ''Network request failed''
         then writeToConsole HintBackendPort st1
         else st1)"

definition editClips ::
  "('i, 's, 'w) services \<Rightarrow> ('i, 's) session \<Rightarrow> 'w \<Rightarrow> 'i list \<Rightarrow> string
     \<Rightarrow> ('i, 's) session \<times> 'w" where
  "editClips sv st w items text =
     (if length items = 0
      then (writeToConsole NoClipsSelected st, w)
      else
        let st1 = writeToConsole (SendingToAI text)
                    (writeToConsole (FoundClips (length items)) st)
        in case queryAI sv st1 w text of
             (Threw err, st2, w2) \<Rightarrow> (reportError err st2, w2)
           | (Returned aiResponse, st2, w2) \<Rightarrow>
               (if js_or (r_action aiResponse) [] = []
                then (reportNoAction aiResponse st2, w2)
                else
                  let act = js_or (r_action aiResponse) [];
                      st3 = writeToConsole (AIExtracted act (r_parameters aiResponse)) st2;
                      st4 = (if js_or (r_message aiResponse) [] \<noteq> []
                             then writeToConsole (AIMessage (js_or (r_message aiResponse) [])) st3
                             else st3);
                      st5 = writeToConsole CapturingPreviousState st4;
                      pars = (case r_parameters aiResponse of None \<Rightarrow> [] | Some ps \<Rightarrow> ps)
                  in (case capturePreviousState sv items act w2 of
                        (Threw err, w3) \<Rightarrow> (reportError err st5, w3)
                      | (Returned prevState, w3) \<Rightarrow>
                          (case dispatchAction sv act items pars w3 of
                             (Threw err, w4) \<Rightarrow> (reportError err st5, w4)
                           | (Returned result, w4) \<Rightarrow>
                               (if successful result > 0
                                then
                                  let entry = \<lparr> actionName = act, trackItems = items,
                                                previousState = prevState, parameters = pars \<rparr>;
                                      st6 = recordEdit entry st5;
                                      st7 = writeToConsole (ActionApplied (successful result)) st6;
                                      st8 = (if failed result > 0
                                             then writeToConsole (FailedOn (failed result)) st7
                                             else st7)
                                  in (writeToConsole UsePanelUndo st8, w4)
                                else (writeToConsole FailedToApply st5, w4))))))"

section \<open>The editing actions (src/unnamed/part_001, src/services/editingActions.js)\<close>

subsection \<open>The host application\<close>

text \<open>
  The actions work on Premiere Pro through its scripting bridge and through the helpers
  of \<^verbatim>\<open>clipUtils\<close>. What the plugin asks the host to change is kept as a trace of
  requests, oldest first; what the host answers is a parameter of the model, and every
  answer may depend on the requests made so far.
\<close>

datatype interpolationMode = LINEAR | BEZIER | HOLD | EASE_IN | EASE_OUT

datatype ('i, 'p) request =
    BeginUndoGroup string
      \<comment> \<open>\<^verbatim>\<open>app.beginUndoGroup(title)\<close>\<close>
  | EndUndoGroup
      \<comment> \<open>\<^verbatim>\<open>app.endUndoGroup()\<close>\<close>
  | AddKeyframe 'p real real interpolationMode
      \<comment> \<open>the transaction of \<^verbatim>\<open>addKeyframe\<close>: parameter, seconds, value, mode\<close>
  | AppendComponent 'i string
      \<comment> \<open>append a video filter component to the item's chain\<close>
  | SetValue 'p real
      \<comment> \<open>\<^verbatim>\<open>createSetValueAction(createKeyframe(value), true)\<close>\<close>
  | AddVideoTransition 'i string real bool bool real
      \<comment> \<open>item, match name, duration in seconds, applyToStart, forceSingleSided, alignment\<close>

type_synonym ('i, 'p) trace = "('i, 'p) request list"

record validation =
  valid :: bool
  reason :: string

text \<open>
  \<open>getActiveProject\<close> answers whether there is a project (\<^verbatim>\<open>null\<close> is \<open>False\<close>);
  \<open>getComponentChain\<close> whether the item has a component chain; \<open>chainParams\<close> lists, for
  each component of the chain in order, its parameters in order with their
  \<^verbatim>\<open>displayName\<close> (the empty string when there is none); \<open>accepts\<close> tells whether the
  host carries a request out (otherwise the bridge throws).
\<close>

record ('i, 'p) host =
  validateClip :: "('i, 'p) trace \<Rightarrow> 'i \<Rightarrow> validation outcome"
  getActiveProject :: "('i, 'p) trace \<Rightarrow> bool outcome"
  getMotionScaleParam :: "('i, 'p) trace \<Rightarrow> 'i \<Rightarrow> 'p option outcome"
  getClipDuration :: "('i, 'p) trace \<Rightarrow> 'i \<Rightarrow> real option outcome"
  getClipInPoint :: "('i, 'p) trace \<Rightarrow> 'i \<Rightarrow> real option outcome"
  logClipInfo :: "('i, 'p) trace \<Rightarrow> 'i \<Rightarrow> unit outcome"
  getComponentChain :: "('i, 'p) trace \<Rightarrow> 'i \<Rightarrow> bool outcome"
  chainParams :: "('i, 'p) trace \<Rightarrow> 'i \<Rightarrow> ('p \<times> string) list list outcome"
  getVideoTransitionMatchNames :: "('i, 'p) trace \<Rightarrow> string list outcome"
  accepts :: "('i, 'p) trace \<Rightarrow> ('i, 'p) request \<Rightarrow> bool"

subsection \<open>Strings\<close>





subsection \<open>Undo groups, actions, keyframes\<close>

text \<open>
  \<^verbatim>\<open>beginUndoGroup\<close> and \<^verbatim>\<open>endUndoGroup\<close> swallow every error of the host, so
  they only add their request to the trace.
\<close>

definition beginUndoGroup :: "string \<Rightarrow> ('i, 'p) trace \<Rightarrow> ('i, 'p) trace" where
  "beginUndoGroup title tr =
     (let t = (if title = [] then ''ChatCut Edit'' else title) in tr @ [BeginUndoGroup t])"

definition endUndoGroup :: "('i, 'p) trace \<Rightarrow> ('i, 'p) trace" where
  "endUndoGroup tr = tr @ [EndUndoGroup]"

text \<open>
  \<^verbatim>\<open>executeAction\<close>: the promise resolves when the host carries the action out and
  rejects when it throws. The flag is \<open>True\<close> for resolved.
\<close>

definition executeAction ::
  "('i, 'p) host \<Rightarrow> ('i, 'p) request \<Rightarrow> ('i, 'p) trace \<Rightarrow> bool \<times> ('i, 'p) trace" where
  "executeAction h action tr = (accepts h tr action, tr @ [action])"

definition modeMap :: "string \<Rightarrow> interpolationMode option" where
  "modeMap interp =
     (if interp = ''LINEAR'' then Some LINEAR
      else if interp = ''BEZIER'' then Some BEZIER
      else if interp = ''HOLD'' then Some HOLD
      else if interp = ''EASE_IN'' then Some EASE_IN
      else if interp = ''EASE_OUT'' then Some EASE_OUT
      else None)"

text \<open>
  \<^verbatim>\<open>addKeyframe\<close> returns \<^verbatim>\<open>true\<close> when its one transaction went through and
  \<^verbatim>\<open>false\<close> when anything in it threw.
\<close>

definition addKeyframe ::
  "('i, 'p) host \<Rightarrow> 'p \<Rightarrow> real \<Rightarrow> real \<Rightarrow> string \<Rightarrow> ('i, 'p) trace
     \<Rightarrow> bool \<times> ('i, 'p) trace" where
  "addKeyframe h param seconds val interpolation tr =
     (let interp = (if interpolation = [] then ''BEZIER'' else interpolation);
          interpMode = (case modeMap interp of Some m \<Rightarrow> m | None \<Rightarrow> BEZIER);
          action = AddKeyframe param seconds val interpMode
      in (accepts h tr action, tr @ [action]))"

subsection \<open>Zoom\<close>

text \<open>
  The options object of the zoom functions, with the documented type of each key; an
  absent key is \<open>None\<close> (\<^verbatim>\<open>hasOwnProperty\<close> is false).
\<close>

record zoomOptions =
  startScale :: "real option"
  endScale :: "real option"
  startTime :: "real option"
  duration :: "real option"
  interpolation :: "string option"
  animated :: "bool option"

text \<open>The empty object \<^verbatim>\<open>{}\<close>.\<close>

definition noOptions :: zoomOptions where
  "noOptions = \<lparr> startScale = None, endScale = None, startTime = None, duration = None,
                  interpolation = None, animated = None \<rparr>"

text \<open>\<^verbatim>\<open>options = options || {}\<close>, for options that may be omitted.\<close>

definition orEmpty :: "zoomOptions option \<Rightarrow> zoomOptions" where
  "orEmpty options0 = (case options0 of None \<Rightarrow> noOptions | Some opts \<Rightarrow> opts)"

definition zoomIn ::
  "('i, 'p) host \<Rightarrow> 'i \<Rightarrow> zoomOptions option \<Rightarrow> ('i, 'p) trace \<Rightarrow> bool \<times> ('i, 'p) trace" where
  "zoomIn h trackItem options0 tr =
     (let options = orEmpty options0;
          startScale' = (case startScale options of Some v \<Rightarrow> v | None \<Rightarrow> 100);
          endScale' = (case endScale options of Some v \<Rightarrow> v | None \<Rightarrow> 150);
          startTime' = (case startTime options of Some v \<Rightarrow> v | None \<Rightarrow> 0);
          duration' = duration options;
          interpolation' = (case interpolation options of
                              None \<Rightarrow> ''BEZIER''
                            | Some s \<Rightarrow> if s = [] then ''BEZIER'' else s);
          animated' = (case animated options of Some b \<Rightarrow> b | None \<Rightarrow> False);
          actualStartScale = (if animated' then startScale' else endScale');
          actualEndScale = endScale';
          caught = (False, endUndoGroup tr)
      in
      case validateClip h tr trackItem of
        Threw err \<Rightarrow> caught
      | Returned validation \<Rightarrow>
      (if \<not> valid validation then (False, tr) else
      (case getActiveProject h tr of
        Threw err \<Rightarrow> caught
      | Returned project \<Rightarrow>
      (if \<not> project then (False, tr) else
      (case getMotionScaleParam h tr trackItem of
        Threw err \<Rightarrow> caught
      | Returned None \<Rightarrow> (False, tr)
      | Returned (Some componentParam) \<Rightarrow>
      (case getClipDuration h tr trackItem of
        Threw err \<Rightarrow> caught
      | Returned clipDuration0 \<Rightarrow>
      (case getClipInPoint h tr trackItem of
        Threw err \<Rightarrow> caught
      | Returned clipStartTime0 \<Rightarrow>
      (case (clipDuration0, clipStartTime0) of
        (Some clipDuration, Some clipStartTime) \<Rightarrow>
          (let zoomDuration = (case duration' of
                                 None \<Rightarrow> clipDuration
                               | Some d \<Rightarrow> (if d = 0 then clipDuration else d));
               absoluteStartTime = clipStartTime + startTime';
               absoluteEndTime = absoluteStartTime + zoomDuration
           in (case logClipInfo h tr trackItem of
                 Threw err \<Rightarrow> caught
               | Returned u \<Rightarrow>
                   (let tr1 = beginUndoGroup
                                (''ChatCut: '' @ (if animated' then ''Animated'' else ''Static'')
                                   @ '' Zoom'') tr;
                        (startOK, tr2) = addKeyframe h componentParam absoluteStartTime
                                            actualStartScale interpolation' tr1
                    in if \<not> startOK then (False, endUndoGroup tr2)
                       else
                         (let (endOK, tr3) = addKeyframe h componentParam absoluteEndTime
                                                actualEndScale interpolation' tr2;
                              tr4 = endUndoGroup tr3
                          in if \<not> endOK then (False, tr4) else (True, tr4)))))
      | _ \<Rightarrow> (False, tr)))))))))"

text \<open>
  \<^verbatim>\<open>zoomOut\<close> copies the own properties of the options into a fresh object and then
  sets the two scales.
\<close>

definition copyOwnProperties :: "zoomOptions \<Rightarrow> zoomOptions" where
  "copyOwnProperties options =
     noOptions\<lparr> startScale := startScale options, endScale := endScale options,
                startTime := startTime options, duration := duration options,
                interpolation := interpolation options, animated := animated options \<rparr>"

definition zoomOut ::
  "('i, 'p) host \<Rightarrow> 'i \<Rightarrow> zoomOptions option \<Rightarrow> ('i, 'p) trace \<Rightarrow> bool \<times> ('i, 'p) trace" where
  "zoomOut h trackItem options0 tr =
     (let options = orEmpty options0;
          rest = copyOwnProperties options;
          rest1 = rest\<lparr> startScale :=
                    Some (case startScale options of Some v \<Rightarrow> v | None \<Rightarrow> 150) \<rparr>;
          rest2 = rest1\<lparr> endScale :=
                    Some (case endScale options of Some v \<Rightarrow> v | None \<Rightarrow> 100) \<rparr>
      in zoomIn h trackItem (Some rest2) tr)"

text \<open>The loops of the two batch functions, with their counters.\<close>

fun zoomInLoop ::
  "('i, 'p) host \<Rightarrow> 'i list \<Rightarrow> zoomOptions \<Rightarrow> nat \<Rightarrow> nat \<Rightarrow> ('i, 'p) trace
     \<Rightarrow> counts \<times> ('i, 'p) trace" where
  "zoomInLoop h [] options s f tr = (\<lparr> successful = s, failed = f \<rparr>, tr)"
| "zoomInLoop h (item # items) options s f tr =
     (case zoomIn h item (Some options) tr of
        (ok, tr') \<Rightarrow>
          if ok then zoomInLoop h items options (s + 1) f tr'
          else zoomInLoop h items options s (f + 1) tr')"

definition zoomInBatch ::
  "('i, 'p) host \<Rightarrow> 'i list \<Rightarrow> zoomOptions option \<Rightarrow> ('i, 'p) trace
     \<Rightarrow> counts \<times> ('i, 'p) trace" where
  "zoomInBatch h items options0 tr =
     (let options = orEmpty options0
      in zoomInLoop h items options 0 0 tr)"

fun zoomOutLoop ::
  "('i, 'p) host \<Rightarrow> 'i list \<Rightarrow> zoomOptions \<Rightarrow> nat \<Rightarrow> nat \<Rightarrow> ('i, 'p) trace
     \<Rightarrow> counts \<times> ('i, 'p) trace" where
  "zoomOutLoop h [] options s f tr = (\<lparr> successful = s, failed = f \<rparr>, tr)"
| "zoomOutLoop h (item # items) options s f tr =
     (case zoomOut h item (Some options) tr of
        (ok, tr') \<Rightarrow>
          if ok then zoomOutLoop h items options (s + 1) f tr'
          else zoomOutLoop h items options s (f + 1) tr')"

definition zoomOutBatch ::
  "('i, 'p) host \<Rightarrow> 'i list \<Rightarrow> zoomOptions option \<Rightarrow> ('i, 'p) trace
     \<Rightarrow> counts \<times> ('i, 'p) trace" where
  "zoomOutBatch h items options0 tr =
     (let options = orEmpty options0
      in zoomOutLoop h items options 0 0 tr)"

subsection \<open>Blur\<close>



subsection \<open>Transitions\<close>


section \<open>The provider contract\<close>

text \<open>
  Modelled from the spec: the providers of the backend (the cloud language model, the
  deterministic stub and the video generation provider) and their \<^verbatim>\<open>processPrompt\<close>
  are not among the sources. The specification gives their contract: a provider tells
  whether it is configured and what it is called; \<^verbatim>\<open>processPrompt\<close> never throws; on
  any internal failure it returns a result with \<^verbatim>\<open>error\<close> set and confidence 0.0; on
  success the confidence is 1.0 and exactly one of \<^verbatim>\<open>action\<close> and
  \<^verbatim>\<open>actions\<close> is populated alongside \<^verbatim>\<open>parameters\<close>; a missing credential
  gives \<^verbatim>\<open>API_KEY_MISSING\<close> at call time.

  \<open>upstream\<close> is what happened inside the provider for one prompt: a failure with its
  error code and explanation (\<^verbatim>\<open>SMALL_TALK\<close>, \<^verbatim>\<open>NEEDS_SELECTION\<close>,
  \<^verbatim>\<open>NEEDS_SPECIFICATION\<close>, \<^verbatim>\<open>INVALID_RESPONSE\<close>, the file errors, ...), one
  extracted operation, or several.
\<close>

datatype upstream =
    Failure string string
  | Single string params
  | Multiple "string \<times> params" "(string \<times> params) list"

record provider =
  getProviderName :: string
  isConfigured :: bool
  answer :: "string \<Rightarrow> string list \<Rightarrow> string list \<Rightarrow> upstream"

definition failureResult :: "string \<Rightarrow> string \<Rightarrow> actionResult" where
  "failureResult code explanation =
     \<lparr> r_action = None, r_actions = [], r_parameters = None, r_confidence = 0.0,
       r_message = Some explanation, r_error = Some code \<rparr>"

text \<open>
  Modelled from the spec: \<^verbatim>\<open>processPrompt(promptText, availableActionsCatalog,
  optionalMediaContext)\<close> of a provider, missing from the sources as said above.
\<close>

definition providerProcessPrompt ::
  "provider \<Rightarrow> string \<Rightarrow> string list \<Rightarrow> string list \<Rightarrow> actionResult" where
  "providerProcessPrompt p promptText availableActionsCatalog mediaContext =
     (if \<not> isConfigured p
      then failureResult ''API_KEY_MISSING'' ''no credential configured''
      else
        case answer p promptText availableActionsCatalog mediaContext of
          Failure code explanation \<Rightarrow> failureResult code explanation
        | Single act pars \<Rightarrow>
            \<lparr> r_action = Some act, r_actions = [], r_parameters = Some pars,
              r_confidence = 1.0, r_message = None, r_error = None \<rparr>
        | Multiple first others \<Rightarrow>
            \<lparr> r_action = None, r_actions = first # others, r_parameters = Some [],
              r_confidence = 1.0, r_message = None, r_error = None \<rparr>)"

section \<open>Vocabulary of the statements\<close>

text \<open>
  The cursor invariant of the data model: \<open>0 \<le> cursor \<le> length history\<close>.
\<close>

definition cursorInvariant :: "('i, 's) session \<Rightarrow> bool" where
  "cursorInvariant st =
     (0 \<le> chatCutUndosCount st \<and> chatCutUndosCount st \<le> int (length (editHistory st)))"

text \<open>
  A batch as the specification words it: the operation is applied to every item, in
  order, whatever the earlier items returned; the results are collected in order.
\<close>

fun applyEach :: "('a \<Rightarrow> 't \<Rightarrow> bool \<times> 't) \<Rightarrow> 'a list \<Rightarrow> 't \<Rightarrow> bool list \<times> 't" where
  "applyEach operation [] tr = ([], tr)"
| "applyEach operation (item # items) tr =
     (case operation item tr of
        (ok, tr') \<Rightarrow>
          (case applyEach operation items tr' of (oks, tr'') \<Rightarrow> (ok # oks, tr'')))"

text \<open>
  What a trace asks of the host: the keyframes (seconds and value), the values set on a
  blur parameter, and the settings (duration, applied to start, alignment) of the
  transitions added.
\<close>

fun keyframes :: "('i, 'p) trace \<Rightarrow> (real \<times> real) list" where
  "keyframes [] = []"
| "keyframes (AddKeyframe p t v m # rs) = (t, v) # keyframes rs"
| "keyframes (r # rs) = keyframes rs"



text \<open>
  The options of \<^verbatim>\<open>zoomOut\<close> as they are described: the given options, except
  that an absent \<^verbatim>\<open>startScale\<close> becomes 150 and an absent \<^verbatim>\<open>endScale\<close>
  becomes 100.
\<close>

definition withZoomOutDefaults :: "zoomOptions \<Rightarrow> zoomOptions" where
  "withZoomOutDefaults options =
     options\<lparr> startScale := (case startScale options of None \<Rightarrow> Some 150 | Some v \<Rightarrow> Some v),
               endScale := (case endScale options of None \<Rightarrow> Some 100 | Some v \<Rightarrow> Some v) \<rparr>"

definition exactlyOne :: "bool \<Rightarrow> bool \<Rightarrow> bool \<Rightarrow> bool" where
  "exactlyOne a b c = ((a \<and> \<not> b \<and> \<not> c) \<or> (\<not> a \<and> b \<and> \<not> c) \<or> (\<not> a \<and> \<not> b \<and> c))"

section \<open>Example data\<close>

text \<open>
  A backend that always answers "zoomIn to 120", a dispatcher and an undo service that
  succeed on every item but the item 0, and an undo service that throws on a blur entry.
  The world is the list of the edits dispatched and undone.
\<close>

definition demoAnswer :: actionResult where
  "demoAnswer = \<lparr> r_action = Some ''zoomIn'', r_actions = [],
                   r_parameters = Some [(''endScale'', JNum 120)], r_confidence = 1,
                   r_message = None, r_error = None \<rparr>"

definition demoCounts :: "nat list \<Rightarrow> counts" where
  "demoCounts items = \<lparr> successful = length (filter (\<lambda>i. i \<noteq> 0) items),
                         failed = length (filter (\<lambda>i. i = 0) items) \<rparr>"

definition demoServices :: "(nat, nat, string list) services" where
  "demoServices =
     \<lparr> getSelectedMediaFilePaths = (\<lambda>w. (Returned [], w)),
       processPrompt = (\<lambda>text w. (Returned demoAnswer, w)),
       processMedia = (\<lambda>paths text w. (Returned demoAnswer, w)),
       capturePreviousState = (\<lambda>items act w. (Returned 7, w)),
       dispatchAction = (\<lambda>act items pars w. (Returned (demoCounts items), w @ [act])),
       executeUndo = (\<lambda>entry w.
          if actionName entry = ''applyBlur'' then (Threw ''host item is gone'', w)
          else (Returned (demoCounts (trackItems entry)), w @ [''undo '' @ actionName entry])) \<rparr>"

definition demoEntry :: "string \<Rightarrow> nat list \<Rightarrow> (nat, nat) historyEntry" where
  "demoEntry act items =
     \<lparr> actionName = act, trackItems = items, previousState = 7, parameters = [] \<rparr>"

definition demoSession :: "(nat, nat) historyEntry list \<Rightarrow> int \<Rightarrow> (nat, nat) session" where
  "demoSession h c = \<lparr> message = [], processMediaMode = False, editHistory = h,
                        chatCutUndosCount = c \<rparr>"

text \<open>
  A host with a project, in which the clip 0 has no video, the clip 9 has been deleted,
  every clip lasts 5 seconds from second 2, the Scale parameter of clip \<open>i\<close> is \<open>10 i\<close>
  and the one of clip 4 rejects keyframes, and a Blurriness parameter \<open>10 i + 1\<close>
  appears once a Gaussian blur has been appended to clip \<open>i\<close>.
\<close>

definition demoHost :: "(nat, nat) host" where
  "demoHost =
     \<lparr> validateClip = (\<lambda>tr i.
          if i = 0 then Returned \<lparr> valid = False, reason = ''no video component'' \<rparr>
          else if i = 9 then Threw ''clip was deleted''
          else Returned \<lparr> valid = True, reason = [] \<rparr>),
       getActiveProject = (\<lambda>tr. Returned True),
       getMotionScaleParam = (\<lambda>tr i. Returned (Some (10 * i))),
       getClipDuration = (\<lambda>tr i. Returned (Some 5)),
       getClipInPoint = (\<lambda>tr i. Returned (Some 2)),
       logClipInfo = (\<lambda>tr i. Returned ()),
       getComponentChain = (\<lambda>tr i. Returned True),
       chainParams = (\<lambda>tr i. Returned
          (if AppendComponent i ''AE.ADBE Gaussian Blur 2'' \<in> set tr
           then [[(10 * i, ''Scale'')], [(10 * i + 1, '' Blurriness'')]]
           else [[(10 * i, ''Scale'')]])),
       getVideoTransitionMatchNames = (\<lambda>tr. Returned
          [''AE.ADBE Cross Dissolve New'', ''AE.ADBE Dip To Black'']),
       accepts = (\<lambda>tr req. case req of AddKeyframe p t v m \<Rightarrow> p \<noteq> 40 | _ \<Rightarrow> True) \<rparr>"

text \<open>A host whose every call throws and that carries no request out.\<close>

definition brokenHost :: "(nat, nat) host" where
  "brokenHost =
     \<lparr> validateClip = (\<lambda>tr i. Threw ''Premiere Pro API not available''),
       getActiveProject = (\<lambda>tr. Threw ''Premiere Pro API not available''),
       getMotionScaleParam = (\<lambda>tr i. Threw ''Premiere Pro API not available''),
       getClipDuration = (\<lambda>tr i. Threw ''Premiere Pro API not available''),
       getClipInPoint = (\<lambda>tr i. Threw ''Premiere Pro API not available''),
       logClipInfo = (\<lambda>tr i. Threw ''Premiere Pro API not available''),
       getComponentChain = (\<lambda>tr i. Threw ''Premiere Pro API not available''),
       chainParams = (\<lambda>tr i. Threw ''Premiere Pro API not available''),
       getVideoTransitionMatchNames = (\<lambda>tr. Threw ''Premiere Pro API not available''),
       accepts = (\<lambda>tr req. False) \<rparr>"

text \<open>
  A configured provider that extracts one operation from one prompt, recognises a
  greeting and extracts two operations from everything else.
\<close>

definition demoProvider :: provider where
  "demoProvider =
     \<lparr> getProviderName = ''stub'', isConfigured = True,
       answer = (\<lambda>promptText catalog media.
          if promptText = ''zoom in by 120%'' then Single ''zoomIn'' [(''endScale'', JNum 120)]
          else if promptText = ''hello'' then Failure ''SMALL_TALK'' ''Hi!''
          else Multiple (''zoomIn'', []) [(''applyBlur'', [(''blurriness'', JNum 30)])]) \<rparr>"

lemmas demo_defs = demoServices_def demoSession_def demoEntry_def demoCounts_def demoAnswer_def

lemmas host_defs = demoHost_def noOptions_def orEmpty_def zoomIn_def zoomOut_def
  copyOwnProperties_def addKeyframe_def beginUndoGroup_def endUndoGroup_def modeMap_def
  executeAction_def Let_def



section \<open>The session state: history and undo cursor\<close>

subsection \<open>Auxiliary facts\<close>

lemma js_index_in_range:
  "0 \<le> i \<Longrightarrow> i < int (length xs) \<Longrightarrow> js_index xs i = Some (xs ! nat i)"
  by (simp add: js_index_def)

lemma js_slice0_take:
  "0 \<le> e \<Longrightarrow> js_slice0 xs e = take (nat e) xs"
  by (simp add: js_slice0_def Let_def min_def)

lemma writeToConsole_fields [simp]:
  "editHistory (writeToConsole m st) = editHistory st"
  "chatCutUndosCount (writeToConsole m st) = chatCutUndosCount st"
  "processMediaMode (writeToConsole m st) = processMediaMode st"
  "message (writeToConsole m st) = message st @ [m]"
  by (simp_all add: writeToConsole_def)

lemma reportError_fields [simp]:
  "editHistory (reportError e st) = editHistory st"
  "chatCutUndosCount (reportError e st) = chatCutUndosCount st"
  by (simp_all add: reportError_def Let_def)

lemma reportNoAction_fields [simp]:
  "editHistory (reportNoAction a st) = editHistory st"
  "chatCutUndosCount (reportNoAction a st) = chatCutUndosCount st"
  by (simp_all add: reportNoAction_def Let_def)

lemma queryAI_fields:
  assumes "queryAI sv st w text = (res, st', w')"
  shows "editHistory st' = editHistory st" and "chatCutUndosCount st' = chatCutUndosCount st"
  using assms
  by (auto simp: queryAI_def Let_def split: if_splits prod.splits outcome.splits)

lemma recordEdit_fields:
  "editHistory (recordEdit e st) =
     (if chatCutUndosCount st > 0
      then js_slice0 (editHistory st) (int (length (editHistory st)) - chatCutUndosCount st) @ [e]
      else editHistory st @ [e])"
  "chatCutUndosCount (recordEdit e st) =
     (if chatCutUndosCount st > 0 then 0 else chatCutUndosCount st)"
  "message (recordEdit e st) = message st"
  "processMediaMode (recordEdit e st) = processMediaMode st"
  by (simp_all add: recordEdit_def Let_def)

lemma recordEdit_recordEditWith:
  "recordEdit entry st = recordEditWith (chatCutUndosCount st) entry st"
  by (simp add: recordEdit_def recordEditWith_def Let_def)

text \<open>
  What recording does for every cursor, also a negative one and one above the length
  \<open>N\<close> of the history: the end \<open>N - c\<close> of \<^verbatim>\<open>slice\<close> is then negative and counts
  from the end of the array, which keeps \<open>2 N - c\<close> entries (none when that is negative).
\<close>

lemma recordEdit_explicit:
  "recordEdit entry st =
     st\<lparr> editHistory :=
            take (if chatCutUndosCount st \<le> int (length (editHistory st))
                  then length (editHistory st) - nat (chatCutUndosCount st)
                  else nat (2 * int (length (editHistory st)) - chatCutUndosCount st))
              (editHistory st) @ [entry],
          chatCutUndosCount := (if 0 < chatCutUndosCount st then 0 else chatCutUndosCount st) \<rparr>"
proof (cases "0 < chatCutUndosCount st")
  case False
  then show ?thesis by (simp add: recordEdit_def Let_def)
next
  case pos: True
  show ?thesis
  proof (cases "chatCutUndosCount st \<le> int (length (editHistory st))")
    case True
    then have "nat (int (length (editHistory st)) - chatCutUndosCount st)
                 = length (editHistory st) - nat (chatCutUndosCount st)"
      using pos by simp
    then show ?thesis using pos True by (simp add: recordEdit_def Let_def js_slice0_def min_def)
  next
    case False
    then have "nat (max (int (length (editHistory st))
                          + (int (length (editHistory st)) - chatCutUndosCount st)) 0)
                 = nat (2 * int (length (editHistory st)) - chatCutUndosCount st)"
      by (simp add: max_def)
    then show ?thesis using pos False by (simp add: recordEdit_def Let_def js_slice0_def)
  qed
qed

lemma recordEditWith_invariant:
  "cursorInvariant st \<Longrightarrow> cursorInvariant (recordEditWith c0 entry st)"
  by (auto simp: cursorInvariant_def recordEditWith_def Let_def)

lemma handleUndo_phases:
  "handleUndo sv st w =
     (case handleUndo_start st of
        (st1, None) \<Rightarrow> (st1, w)
      | (st1, Some entry) \<Rightarrow>
          (case executeUndo sv entry w of (out, w') \<Rightarrow> (handleUndo_finish out st1, w')))"
  by (auto simp: handleUndo_def handleUndo_start_def handleUndo_finish_def Let_def
           split: option.splits prod.splits outcome.splits)

lemma handleUndo_start_fields:
  "editHistory (fst (handleUndo_start st)) = editHistory st"
  "chatCutUndosCount (fst (handleUndo_start st)) = chatCutUndosCount st"
  by (simp_all add: handleUndo_start_def Let_def split: option.splits)

lemma handleUndo_finish_fields:
  "editHistory (handleUndo_finish out st) = editHistory st"
  "chatCutUndosCount (handleUndo_finish out st) =
     (case out of
        Returned result \<Rightarrow>
          (if 0 < successful result then chatCutUndosCount st + 1 else chatCutUndosCount st)
      | Threw err \<Rightarrow> chatCutUndosCount st)"
  by (simp_all add: handleUndo_finish_def Let_def split: outcome.splits)

lemma recordEdit_invariant:
  "cursorInvariant st \<Longrightarrow> cursorInvariant (recordEdit e st)"
  by (auto simp: cursorInvariant_def recordEdit_fields)

text \<open>
  What \<^const>\<open>editClips\<close> leaves of the history and the cursor, whichever path it
  takes: either both are as before, or the dispatcher has reported a success and both are
  those of \<^const>\<open>recordEdit\<close>.
\<close>

lemma editClips_cases:
  fixes sv :: "('i, 's, 'w) services"
  shows
  "(editHistory (fst (editClips sv st w items text)) = editHistory st \<and>
    chatCutUndosCount (fst (editClips sv st w items text)) = chatCutUndosCount st) \<or>
   (\<exists>act pars prevState w3 w4 result.
      dispatchAction sv act items pars w3 = (Returned result, w4) \<and> 0 < successful result \<and>
      editHistory (fst (editClips sv st w items text)) =
        editHistory (recordEdit \<lparr> actionName = act, trackItems = items,
                       previousState = prevState, parameters = pars \<rparr> st) \<and>
      chatCutUndosCount (fst (editClips sv st w items text)) =
        chatCutUndosCount (recordEdit \<lparr> actionName = act, trackItems = items,
                       previousState = prevState, parameters = pars \<rparr> st))"
proof (cases "length items = 0")
  case True
  then show ?thesis by (simp add: editClips_def)
next
  case nonempty: False
  let ?st1 = "writeToConsole (SendingToAI text) (writeToConsole (FoundClips (length items)) st)"
  obtain res st2 w2 where q: "queryAI sv ?st1 w text = (res, st2, w2)"
    by (cases "queryAI sv ?st1 w text") auto
  have st2: "editHistory st2 = editHistory st" "chatCutUndosCount st2 = chatCutUndosCount st"
    using queryAI_fields[OF q] by simp_all
  show ?thesis
  proof (cases res)
    case (Threw err)
    then show ?thesis using nonempty q st2 by (simp add: editClips_def Let_def)
  next
    case (Returned ai)
    show ?thesis
    proof (cases "js_or (r_action ai) [] = []")
      case True
      then show ?thesis using nonempty q st2 Returned by (simp add: editClips_def Let_def)
    next
      case act: False
      let ?act = "js_or (r_action ai) []"
      let ?pars = "case r_parameters ai of None \<Rightarrow> [] | Some ps \<Rightarrow> ps"
      obtain cres w3 where c: "capturePreviousState sv items ?act w2 = (cres, w3)"
        by (cases "capturePreviousState sv items ?act w2") auto
      show ?thesis
      proof (cases cres)
        case (Threw err)
        then show ?thesis using nonempty q st2 Returned act c
          by (simp add: editClips_def Let_def)
      next
        case prev: (Returned prevState)
        obtain dres w4 where d: "dispatchAction sv ?act items ?pars w3 = (dres, w4)"
          by (cases "dispatchAction sv ?act items ?pars w3") auto
        show ?thesis
        proof (cases dres)
          case (Threw err)
          then show ?thesis using nonempty q st2 Returned act c prev d
            by (simp add: editClips_def Let_def)
        next
          case res: (Returned result)
          show ?thesis
          proof (cases "0 < successful result")
            case False
            then show ?thesis using nonempty q st2 Returned act c prev d res
              by (simp add: editClips_def Let_def)
          next
            case True
            let ?e = "\<lparr> actionName = ?act, trackItems = items,
                         previousState = prevState, parameters = ?pars \<rparr>"
            have "editHistory (fst (editClips sv st w items text)) = editHistory (recordEdit ?e st)"
              and "chatCutUndosCount (fst (editClips sv st w items text)) =
                     chatCutUndosCount (recordEdit ?e st)"
              using nonempty q st2 Returned act c prev d res True
              by (simp_all add: editClips_def Let_def recordEdit_fields)
            then show ?thesis using d res True by blast
          qed
        qed
      qed
    qed
  qed
qed

lemma handleUndo_invariant:
  "cursorInvariant st \<Longrightarrow> cursorInvariant (fst (handleUndo sv st w))"
  by (auto simp: cursorInvariant_def handleUndo_def Let_def
           split: option.splits prod.splits outcome.splits)

lemma editClips_invariant:
  assumes "cursorInvariant st"
  shows "cursorInvariant (fst (editClips sv st w items text))"
  using editClips_cases[of sv st w items "text"] recordEdit_invariant[OF assms]
        assms
  by (auto simp: cursorInvariant_def)

lemma handleRedo_invariant:
  "cursorInvariant st \<Longrightarrow> cursorInvariant (handleRedo st)"
  by (simp add: cursorInvariant_def handleRedo_def)

subsection \<open>Undo\<close>

text \<open>
  C1. For a history of length \<open>N\<close> and a cursor \<open>c\<close> with \<open>0 \<le> c \<le> N\<close>: when
  \<open>c = N\<close>, undo only prints that there is nothing to undo; history, cursor and the
  world outside are unchanged (the undo service is not called). Otherwise undo hands the
  entry at position \<open>N - c - 1\<close> to the undo service, which restores the entry's previous
  state onto its track items; when the service reports at least one restored item the
  cursor becomes \<open>c + 1\<close> and the counts are printed, and when it reports none the cursor
  stays \<open>c\<close> and the failure is printed. The history is never changed by undo.
\<close>

theorem handleUndo_behaviour:
  fixes st :: "('i, 's) session" and sv :: "('i, 's, 'w) services"
  assumes lo: "0 \<le> chatCutUndosCount st"
      and hi: "chatCutUndosCount st \<le> int (length (editHistory st))"
  shows "(chatCutUndosCount st = int (length (editHistory st)) \<longrightarrow>
            handleUndo sv st w =
              (st\<lparr> message := message st @ [NoEditsToUndo, TipMakeNewEdit] \<rparr>, w)) \<and>
         (chatCutUndosCount st < int (length (editHistory st)) \<longrightarrow>
            (\<forall>r w'. executeUndo sv
                       (editHistory st ! nat (int (length (editHistory st)) - chatCutUndosCount st - 1)) w
                     = (Returned r, w') \<longrightarrow>
               snd (handleUndo sv st w) = w' \<and>
               editHistory (fst (handleUndo sv st w)) = editHistory st \<and>
               (0 < successful r \<longrightarrow>
                  chatCutUndosCount (fst (handleUndo sv st w)) = chatCutUndosCount st + 1 \<and>
                  message (fst (handleUndo sv st w)) =
                    message st @
                    [AttemptingUndo (chatCutUndosCount st + 1) (length (editHistory st))
                       (actionName (editHistory st !
                          nat (int (length (editHistory st)) - chatCutUndosCount st - 1))),
                     UndoCompleted (successful r)] @
                    (if 0 < failed r then [FailedToUndo (failed r)] else [])) \<and>
               (successful r = 0 \<longrightarrow>
                  chatCutUndosCount (fst (handleUndo sv st w)) = chatCutUndosCount st \<and>
                  message (fst (handleUndo sv st w)) =
                    message st @
                    [AttemptingUndo (chatCutUndosCount st + 1) (length (editHistory st))
                       (actionName (editHistory st !
                          nat (int (length (editHistory st)) - chatCutUndosCount st - 1))),
                     UndoFailed])))"
proof (intro conjI impI allI)
  assume "chatCutUndosCount st = int (length (editHistory st))"
  then show "handleUndo sv st w =
      (st\<lparr> message := message st @ [NoEditsToUndo, TipMakeNewEdit] \<rparr>, w)"
    by (simp add: handleUndo_def writeToConsole_def)
next
  fix r w'
  let ?i = "int (length (editHistory st)) - chatCutUndosCount st - 1"
  assume lt: "chatCutUndosCount st < int (length (editHistory st))"
     and ex: "executeUndo sv (editHistory st ! nat ?i) w = (Returned r, w')"
  have idx: "js_index (editHistory st) ?i = Some (editHistory st ! nat ?i)"
    using lo lt by (intro js_index_in_range) simp_all
  show "snd (handleUndo sv st w) = w'"
    using lt idx ex by (simp add: handleUndo_def Let_def)
  show "editHistory (fst (handleUndo sv st w)) = editHistory st"
    using lt idx ex by (simp add: handleUndo_def Let_def)
  {
    assume pos: "0 < successful r"
    show "chatCutUndosCount (fst (handleUndo sv st w)) = chatCutUndosCount st + 1"
      using lt idx ex pos by (simp add: handleUndo_def Let_def)
    show "message (fst (handleUndo sv st w)) =
            message st @
            [AttemptingUndo (chatCutUndosCount st + 1) (length (editHistory st))
               (actionName (editHistory st ! nat ?i)),
             UndoCompleted (successful r)] @
            (if 0 < failed r then [FailedToUndo (failed r)] else [])"
      using lt idx ex pos by (simp add: handleUndo_def Let_def)
  next
    assume zero: "successful r = 0"
    show "chatCutUndosCount (fst (handleUndo sv st w)) = chatCutUndosCount st"
      using lt idx ex zero by (simp add: handleUndo_def Let_def)
    show "message (fst (handleUndo sv st w)) =
            message st @
            [AttemptingUndo (chatCutUndosCount st + 1) (length (editHistory st))
               (actionName (editHistory st ! nat ?i)),
             UndoFailed]"
      using lt idx ex zero by (simp add: handleUndo_def Let_def)
  }
qed

text \<open>
  On the example data: nothing to undo at cursor 1 of 1; a successful undo of the older
  of two entries at cursor 1; an undo that restores no item at cursor 0.
\<close>

theorem handleUndo_behaviour_witness:
  "handleUndo demoServices (demoSession [demoEntry ''zoomIn'' [1, 2]] 1) []
     = (demoSession [demoEntry ''zoomIn'' [1, 2]] 1
          \<lparr> message := [NoEditsToUndo, TipMakeNewEdit] \<rparr>, []) \<and>
   chatCutUndosCount (fst (handleUndo demoServices
       (demoSession [demoEntry ''zoomIn'' [1, 2], demoEntry ''zoomOut'' [0, 3]] 1) [])) = 2 \<and>
   snd (handleUndo demoServices
       (demoSession [demoEntry ''zoomIn'' [1, 2], demoEntry ''zoomOut'' [0, 3]] 1) [])
     = [''undo zoomIn''] \<and>
   chatCutUndosCount (fst (handleUndo demoServices
       (demoSession [demoEntry ''zoomIn'' [1, 2], demoEntry ''zoomOut'' [0]] 0) [])) = 0 \<and>
   message (fst (handleUndo demoServices
       (demoSession [demoEntry ''zoomIn'' [1, 2], demoEntry ''zoomOut'' [0]] 0) []))
     = [AttemptingUndo 1 2 ''zoomOut'', UndoFailed]"
  using handleUndo_behaviour
          [of "demoSession [demoEntry ''zoomIn'' [1, 2]] 1" demoServices "[]"]
        handleUndo_behaviour
          [of "demoSession [demoEntry ''zoomIn'' [1, 2], demoEntry ''zoomOut'' [0, 3]] 1"
              demoServices "[]"]
        handleUndo_behaviour
          [of "demoSession [demoEntry ''zoomIn'' [1, 2], demoEntry ''zoomOut'' [0]] 0"
              demoServices "[]"]
  by (simp add: demo_defs)

text \<open>
  C10. When the undo service throws for the selected entry, the handler catches the
  error, prints it, and leaves the cursor (and the history) as they were. The cursor
  changes only when the service has returned, without throwing, a result with at
  least one success, and then it grows by exactly one.
\<close>

theorem handleUndo_exception:
  fixes st :: "('i, 's) session" and sv :: "('i, 's, 'w) services"
  shows
  "(0 \<le> chatCutUndosCount st \<and> chatCutUndosCount st < int (length (editHistory st)) \<and>
    editHistory st ! nat (int (length (editHistory st)) - chatCutUndosCount st - 1) = entry \<and>
    executeUndo sv entry w = (Threw err, w')
    \<longrightarrow>
      handleUndo sv st w =
        (st\<lparr> message := message st @
               [AttemptingUndo (chatCutUndosCount st + 1) (length (editHistory st))
                  (actionName entry),
                UndoFailedWithError err] \<rparr>, w')) \<and>
   (chatCutUndosCount (fst (handleUndo sv st w)) \<noteq> chatCutUndosCount st
    \<longrightarrow>
      chatCutUndosCount (fst (handleUndo sv st w)) = chatCutUndosCount st + 1 \<and>
      (\<exists>e r w''.
         js_index (editHistory st) (int (length (editHistory st)) - chatCutUndosCount st - 1)
           = Some e \<and>
         executeUndo sv e w = (Returned r, w'') \<and> 0 < successful r))"
proof (intro conjI impI; (elim conjE)?)
  let ?i = "int (length (editHistory st)) - chatCutUndosCount st - 1"
  assume lo: "0 \<le> chatCutUndosCount st"
     and lt: "chatCutUndosCount st < int (length (editHistory st))"
     and e: "editHistory st ! nat ?i = entry"
     and ex: "executeUndo sv entry w = (Threw err, w')"
  have idx: "js_index (editHistory st) ?i = Some entry"
    using lo lt e js_index_in_range[of ?i "editHistory st"] by simp
  show "handleUndo sv st w =
        (st\<lparr> message := message st @
               [AttemptingUndo (chatCutUndosCount st + 1) (length (editHistory st))
                  (actionName entry),
                UndoFailedWithError err] \<rparr>, w')"
    using lt idx ex by (simp add: handleUndo_def Let_def writeToConsole_def)
next
  assume ch: "chatCutUndosCount (fst (handleUndo sv st w)) \<noteq> chatCutUndosCount st"
  then show "chatCutUndosCount (fst (handleUndo sv st w)) = chatCutUndosCount st + 1"
    by (auto simp: handleUndo_def Let_def split: if_splits option.splits prod.splits outcome.splits)
  from ch show "\<exists>e r w''.
         js_index (editHistory st) (int (length (editHistory st)) - chatCutUndosCount st - 1)
           = Some e \<and>
         executeUndo sv e w = (Returned r, w'') \<and> 0 < successful r"
    by (auto simp: handleUndo_def Let_def split: if_splits option.splits prod.splits outcome.splits)
qed

text \<open>
  On the example data: the undo service throws on the blur entry at cursor 0, and
  succeeds on the zoom entry at cursor 1.
\<close>

theorem handleUndo_exception_witness:
  "handleUndo demoServices
      (demoSession [demoEntry ''zoomIn'' [1, 2], demoEntry ''applyBlur'' [3]] 0) []
     = (demoSession [demoEntry ''zoomIn'' [1, 2], demoEntry ''applyBlur'' [3]] 0
          \<lparr> message := [AttemptingUndo 1 2 ''applyBlur'',
                         UndoFailedWithError ''host item is gone''] \<rparr>, []) \<and>
   chatCutUndosCount (fst (handleUndo demoServices
      (demoSession [demoEntry ''zoomIn'' [1, 2], demoEntry ''applyBlur'' [3]] 1) [])) = 2 \<and>
   executeUndo demoServices (demoEntry ''zoomIn'' [1, 2]) [] =
      (Returned \<lparr> successful = 2, failed = 0 \<rparr>, [''undo zoomIn''])"
  using handleUndo_exception
          [where sv = demoServices
             and st = "demoSession [demoEntry ''zoomIn'' [1, 2], demoEntry ''applyBlur'' [3]] 0"
             and w = "[]" and entry = "demoEntry ''applyBlur'' [3]"
             and err = "''host item is gone''" and w' = "[]"]
        handleUndo_exception
          [where sv = demoServices
             and st = "demoSession [demoEntry ''zoomIn'' [1, 2], demoEntry ''applyBlur'' [3]] 1"
             and w = "[]"]
  by (simp add: demo_defs handleUndo_def js_index_def writeToConsole_def)

subsection \<open>Recording an edit\<close>




text \<open>
  C8. \<^const>\<open>editClips\<close> adds a history entry exactly when the dispatcher reports at
  least one success. When the run reaches the dispatcher and it reports
  \<open>successful > 0\<close>, the new history is the old one, cut as the cursor demands, followed
  by the entry built from the action, the track items, the captured state and the
  parameters, and the cursor is 0 if it was positive; when the dispatcher reports no
  success, history and cursor are unchanged. Conversely, whenever \<^const>\<open>editClips\<close>
  changes the history or the cursor, the dispatcher has reported a success and the
  change is the adding of that entry.
\<close>

theorem editClips_history_entry:
  fixes st :: "('i, 's) session" and sv :: "('i, 's, 'w) services"
  shows
  "(items \<noteq> [] \<and>
    queryAI sv (writeToConsole (SendingToAI prompt)
                  (writeToConsole (FoundClips (length items)) st)) w prompt
      = (Returned aiResponse, st2, w2) \<and>
    js_or (r_action aiResponse) [] = act \<and> act \<noteq> [] \<and>
    (case r_parameters aiResponse of None \<Rightarrow> [] | Some ps \<Rightarrow> ps) = pars \<and>
    capturePreviousState sv items act w2 = (Returned prevState, w3) \<and>
    dispatchAction sv act items pars w3 = (Returned result, w4)
    \<longrightarrow>
      (0 < successful result \<longrightarrow>
         editHistory (fst (editClips sv st w items prompt)) =
           take (if chatCutUndosCount st \<le> int (length (editHistory st))
                 then length (editHistory st) - nat (chatCutUndosCount st)
                 else nat (2 * int (length (editHistory st)) - chatCutUndosCount st))
             (editHistory st)
           @ [\<lparr> actionName = act, trackItems = items,
                previousState = prevState, parameters = pars \<rparr>] \<and>
         chatCutUndosCount (fst (editClips sv st w items prompt)) =
           (if 0 < chatCutUndosCount st then 0 else chatCutUndosCount st) \<and>
         (chatCutUndosCount st = 0 \<longrightarrow>
            editHistory (fst (editClips sv st w items prompt)) =
              editHistory st
              @ [\<lparr> actionName = act, trackItems = items,
                   previousState = prevState, parameters = pars \<rparr>])) \<and>
      (successful result = 0 \<longrightarrow>
         editHistory (fst (editClips sv st w items prompt)) = editHistory st \<and>
         chatCutUndosCount (fst (editClips sv st w items prompt)) = chatCutUndosCount st)) \<and>
   (editHistory (fst (editClips sv st w items prompt)) \<noteq> editHistory st \<or>
    chatCutUndosCount (fst (editClips sv st w items prompt)) \<noteq> chatCutUndosCount st
    \<longrightarrow>
      (\<exists>act' pars' prevState' w3' w4' result'.
         dispatchAction sv act' items pars' w3' = (Returned result', w4') \<and>
         0 < successful result' \<and>
         editHistory (fst (editClips sv st w items prompt)) =
           take (if chatCutUndosCount st \<le> int (length (editHistory st))
                 then length (editHistory st) - nat (chatCutUndosCount st)
                 else nat (2 * int (length (editHistory st)) - chatCutUndosCount st))
             (editHistory st)
           @ [\<lparr> actionName = act', trackItems = items,
                previousState = prevState', parameters = pars' \<rparr>] \<and>
         chatCutUndosCount (fst (editClips sv st w items prompt)) =
           (if 0 < chatCutUndosCount st then 0 else chatCutUndosCount st)))"
proof (intro conjI impI; (elim conjE)?)
  let ?st1 = "writeToConsole (SendingToAI prompt) (writeToConsole (FoundClips (length items)) st)"
  let ?e = "\<lparr> actionName = act, trackItems = items,
               previousState = prevState, parameters = pars \<rparr>"
  assume ne: "items \<noteq> []"
     and q: "queryAI sv ?st1 w prompt = (Returned aiResponse, st2, w2)"
     and a: "js_or (r_action aiResponse) [] = act" "act \<noteq> []"
     and p: "(case r_parameters aiResponse of None \<Rightarrow> [] | Some ps \<Rightarrow> ps) = pars"
     and c: "capturePreviousState sv items act w2 = (Returned prevState, w3)"
     and d: "dispatchAction sv act items pars w3 = (Returned result, w4)"
  have st2: "editHistory st2 = editHistory st" "chatCutUndosCount st2 = chatCutUndosCount st"
    using queryAI_fields[OF q] by simp_all
  {
    assume pos: "0 < successful result"
    have h: "editHistory (fst (editClips sv st w items prompt)) = editHistory (recordEdit ?e st)"
      using ne q a p c d pos st2 by (simp add: editClips_def Let_def recordEdit_fields)
    have k: "chatCutUndosCount (fst (editClips sv st w items prompt))
            = chatCutUndosCount (recordEdit ?e st)"
      using ne q a p c d pos st2 by (simp add: editClips_def Let_def recordEdit_fields)
    show "editHistory (fst (editClips sv st w items prompt)) =
           take (if chatCutUndosCount st \<le> int (length (editHistory st))
                 then length (editHistory st) - nat (chatCutUndosCount st)
                 else nat (2 * int (length (editHistory st)) - chatCutUndosCount st))
             (editHistory st) @ [?e]"
      using h by (simp add: recordEdit_explicit[of ?e st])
    show "chatCutUndosCount (fst (editClips sv st w items prompt)) =
           (if 0 < chatCutUndosCount st then 0 else chatCutUndosCount st)"
      using k by (simp add: recordEdit_explicit[of ?e st])
    {
      assume "chatCutUndosCount st = 0"
      then show "editHistory (fst (editClips sv st w items prompt)) = editHistory st @ [?e]"
        using h by (simp add: recordEdit_explicit[of ?e st])
    }
  next
    assume zero: "successful result = 0"
    show "editHistory (fst (editClips sv st w items prompt)) = editHistory st"
      using ne q a p c d zero st2 by (simp add: editClips_def Let_def)
    show "chatCutUndosCount (fst (editClips sv st w items prompt)) = chatCutUndosCount st"
      using ne q a p c d zero st2 by (simp add: editClips_def Let_def)
  }
next
  assume "editHistory (fst (editClips sv st w items prompt)) \<noteq> editHistory st \<or>
    chatCutUndosCount (fst (editClips sv st w items prompt)) \<noteq> chatCutUndosCount st"
  then obtain act' pars' prevState' w3' w4' result' where
      d: "dispatchAction sv act' items pars' w3' = (Returned result', w4')"
         "0 < successful result'"
    and h: "editHistory (fst (editClips sv st w items prompt)) =
        editHistory (recordEdit \<lparr> actionName = act', trackItems = items,
                       previousState = prevState', parameters = pars' \<rparr> st)"
    and k: "chatCutUndosCount (fst (editClips sv st w items prompt)) =
        chatCutUndosCount (recordEdit \<lparr> actionName = act', trackItems = items,
                       previousState = prevState', parameters = pars' \<rparr> st)"
    using editClips_cases[of sv st w items prompt] by blast
  let ?e' = "\<lparr> actionName = act', trackItems = items,
                previousState = prevState', parameters = pars' \<rparr>"
  have "editHistory (fst (editClips sv st w items prompt)) =
           take (if chatCutUndosCount st \<le> int (length (editHistory st))
                 then length (editHistory st) - nat (chatCutUndosCount st)
                 else nat (2 * int (length (editHistory st)) - chatCutUndosCount st))
             (editHistory st) @ [?e']"
    using h by (simp add: recordEdit_explicit[of ?e' st])
  moreover have "chatCutUndosCount (fst (editClips sv st w items prompt)) =
           (if 0 < chatCutUndosCount st then 0 else chatCutUndosCount st)"
    using k by (simp add: recordEdit_explicit[of ?e' st])
  ultimately show "\<exists>act' pars' prevState' w3' w4' result'.
         dispatchAction sv act' items pars' w3' = (Returned result', w4') \<and>
         0 < successful result' \<and>
         editHistory (fst (editClips sv st w items prompt)) =
           take (if chatCutUndosCount st \<le> int (length (editHistory st))
                 then length (editHistory st) - nat (chatCutUndosCount st)
                 else nat (2 * int (length (editHistory st)) - chatCutUndosCount st))
             (editHistory st)
           @ [\<lparr> actionName = act', trackItems = items,
                previousState = prevState', parameters = pars' \<rparr>] \<and>
         chatCutUndosCount (fst (editClips sv st w items prompt)) =
           (if 0 < chatCutUndosCount st then 0 else chatCutUndosCount st)"
    using d by blast
qed

text \<open>
  On the example data: a first edit from the initial state (cursor 0), and at cursor 1
  of two entries an edit that succeeds on the clip 5 and one that fails on every clip.
\<close>

theorem editClips_history_entry_witness:
  "editHistory (fst (editClips demoServices (demoSession [demoEntry ''zoomOut'' [3]] 0) []
      [5] ''zoom in''))
     = [demoEntry ''zoomOut'' [3],
        \<lparr> actionName = ''zoomIn'', trackItems = [5], previousState = 7,
          parameters = [(''endScale'', JNum 120)] \<rparr>] \<and>
   chatCutUndosCount (fst (editClips demoServices (demoSession [demoEntry ''zoomOut'' [3]] 0) []
      [5] ''zoom in'')) = 0 \<and>
   editHistory (fst (editClips demoServices
      (demoSession [demoEntry ''zoomIn'' [1], demoEntry ''zoomOut'' [2]] 1) [] [0, 5] ''zoom in''))
     = [demoEntry ''zoomIn'' [1],
        \<lparr> actionName = ''zoomIn'', trackItems = [0, 5], previousState = 7,
          parameters = [(''endScale'', JNum 120)] \<rparr>] \<and>
   chatCutUndosCount (fst (editClips demoServices
      (demoSession [demoEntry ''zoomIn'' [1], demoEntry ''zoomOut'' [2]] 1) [] [0, 5] ''zoom in''))
     = 0 \<and>
   editHistory (fst (editClips demoServices
      (demoSession [demoEntry ''zoomIn'' [1], demoEntry ''zoomOut'' [2]] 1) [] [0, 0] ''zoom in''))
     = [demoEntry ''zoomIn'' [1], demoEntry ''zoomOut'' [2]] \<and>
   chatCutUndosCount (fst (editClips demoServices
      (demoSession [demoEntry ''zoomIn'' [1], demoEntry ''zoomOut'' [2]] 1) [] [0, 0] ''zoom in''))
     = 1"
  using editClips_history_entry
          [where sv = demoServices
             and st = "demoSession [demoEntry ''zoomOut'' [3]] 0"
             and w = "[]" and items = "[5]" and prompt = "''zoom in''"
             and aiResponse = demoAnswer
             and ?st2.0 = "writeToConsole (SendingToAI ''zoom in'') (writeToConsole (FoundClips 1)
                   (demoSession [demoEntry ''zoomOut'' [3]] 0))"
             and ?w2.0 = "[]" and act = "''zoomIn''" and pars = "[(''endScale'', JNum 120)]"
             and prevState = 7 and ?w3.0 = "[]"
             and result = "demoCounts [5]" and ?w4.0 = "[''zoomIn'']"]
        editClips_history_entry
          [where sv = demoServices
             and st = "demoSession [demoEntry ''zoomIn'' [1], demoEntry ''zoomOut'' [2]] 1"
             and w = "[]" and items = "[0, 5]" and prompt = "''zoom in''"
             and aiResponse = demoAnswer
             and ?st2.0 = "writeToConsole (SendingToAI ''zoom in'') (writeToConsole (FoundClips 2)
                   (demoSession [demoEntry ''zoomIn'' [1], demoEntry ''zoomOut'' [2]] 1))"
             and ?w2.0 = "[]" and act = "''zoomIn''" and pars = "[(''endScale'', JNum 120)]"
             and prevState = 7 and ?w3.0 = "[]"
             and result = "demoCounts [0, 5]" and ?w4.0 = "[''zoomIn'']"]
        editClips_history_entry
          [where sv = demoServices
             and st = "demoSession [demoEntry ''zoomIn'' [1], demoEntry ''zoomOut'' [2]] 1"
             and w = "[]" and items = "[0, 0]" and prompt = "''zoom in''"
             and aiResponse = demoAnswer
             and ?st2.0 = "writeToConsole (SendingToAI ''zoom in'') (writeToConsole (FoundClips 2)
                   (demoSession [demoEntry ''zoomIn'' [1], demoEntry ''zoomOut'' [2]] 1))"
             and ?w2.0 = "[]" and act = "''zoomIn''" and pars = "[(''endScale'', JNum 120)]"
             and prevState = 7 and ?w3.0 = "[]"
             and result = "demoCounts [0, 0]" and ?w4.0 = "[''zoomIn'']"]
  by (simp add: demo_defs queryAI_def js_or_def)

subsection \<open>The cursor invariant\<close>

text \<open>
  C3, as the code has it. \<open>0 \<le> cursor \<le> length history\<close> holds in the initial state and
  is preserved by every operation that runs from the state it has read to its end with
  no other handler in between: recording an edit, \<^const>\<open>editClips\<close> as a whole,
  \<^const>\<open>handleUndo\<close> (whether the undo succeeds, fails or throws) and
  \<^const>\<open>handleRedo\<close>. When handlers overlap, the parts of the handlers still preserve
  it in these cases: recording an edit with the cursor of an older closure, the start of
  an undo, the end of an undo that restored nothing or threw, and the end of a
  successful undo applied to a state whose cursor is below the length of its history.
  \<^const>\<open>canUndo\<close> is true exactly when the cursor is below the length of the history.
\<close>

theorem cursor_invariant:
  fixes st :: "('i, 's) session" and sv :: "('i, 's, 'w) services"
  shows "cursorInvariant (initial :: ('i, 's) session) \<and>
         (cursorInvariant st \<longrightarrow>
            cursorInvariant (recordEdit entry st) \<and>
            cursorInvariant (fst (editClips sv st w items prompt)) \<and>
            cursorInvariant (fst (handleUndo sv st w)) \<and>
            cursorInvariant (handleRedo st) \<and>
            cursorInvariant (recordEditWith c0 entry st) \<and>
            cursorInvariant (fst (handleUndo_start st)) \<and>
            cursorInvariant (handleUndo_finish (Threw err) st) \<and>
            (successful r = 0 \<longrightarrow> cursorInvariant (handleUndo_finish (Returned r) st)) \<and>
            (chatCutUndosCount st < int (length (editHistory st)) \<longrightarrow>
               cursorInvariant (handleUndo_finish out st))) \<and>
         (canUndo st \<longleftrightarrow> chatCutUndosCount st < int (length (editHistory st)))"
proof (intro conjI impI)
  show "cursorInvariant (initial :: ('i, 's) session)"
    by (simp add: cursorInvariant_def initial_def)
  show "canUndo st \<longleftrightarrow> chatCutUndosCount st < int (length (editHistory st))"
    by (simp add: canUndo_def)
next
  assume inv: "cursorInvariant st"
  show "cursorInvariant (recordEdit entry st)"
    using inv by (rule recordEdit_invariant)
  show "cursorInvariant (fst (editClips sv st w items prompt))"
    using inv by (rule editClips_invariant)
  show "cursorInvariant (fst (handleUndo sv st w))"
    using inv by (rule handleUndo_invariant)
  show "cursorInvariant (handleRedo st)"
    using inv by (rule handleRedo_invariant)
  show "cursorInvariant (recordEditWith c0 entry st)"
    using inv by (rule recordEditWith_invariant)
  show "cursorInvariant (fst (handleUndo_start st))"
    using inv by (simp add: cursorInvariant_def handleUndo_start_fields)
  show "cursorInvariant (handleUndo_finish (Threw err) st)"
    using inv by (simp add: cursorInvariant_def handleUndo_finish_fields)
  {
    assume "successful r = 0"
    then show "cursorInvariant (handleUndo_finish (Returned r) st)"
      using inv by (simp add: cursorInvariant_def handleUndo_finish_fields)
  next
    assume "chatCutUndosCount st < int (length (editHistory st))"
    then show "cursorInvariant (handleUndo_finish out st)"
      using inv
      by (simp add: cursorInvariant_def handleUndo_finish_fields split: outcome.splits)
  }
qed

text \<open>
  On the example data: two entries with cursor 1, with a whole edit, a whole undo, and
  the two parts of an undo.
\<close>

theorem cursor_invariant_witness:
  "cursorInvariant (demoSession [demoEntry ''zoomIn'' [1], demoEntry ''zoomOut'' [2]] 1) \<and>
   cursorInvariant (recordEdit (demoEntry ''applyBlur'' [4])
      (demoSession [demoEntry ''zoomIn'' [1], demoEntry ''zoomOut'' [2]] 1)) \<and>
   cursorInvariant (fst (editClips demoServices
      (demoSession [demoEntry ''zoomIn'' [1], demoEntry ''zoomOut'' [2]] 1) [] [0, 5] ''zoom in'')) \<and>
   cursorInvariant (fst (handleUndo demoServices
      (demoSession [demoEntry ''zoomIn'' [1], demoEntry ''zoomOut'' [2]] 1) [])) \<and>
   canUndo (demoSession [demoEntry ''zoomIn'' [1], demoEntry ''zoomOut'' [2]] 1) \<and>
   cursorInvariant (fst (handleUndo_start
      (demoSession [demoEntry ''zoomIn'' [1], demoEntry ''zoomOut'' [2]] 1))) \<and>
   handleUndo_finish (Returned \<lparr> successful = 1, failed = 0 \<rparr>)
      (demoSession [demoEntry ''zoomIn'' [1], demoEntry ''zoomOut'' [2]] 1)
     = demoSession [demoEntry ''zoomIn'' [1], demoEntry ''zoomOut'' [2]] 2
         \<lparr> message := [UndoCompleted 1] \<rparr> \<and>
   cursorInvariant (handleUndo_finish (Returned \<lparr> successful = 0, failed = 1 \<rparr>)
      (demoSession [demoEntry ''zoomIn'' [1], demoEntry ''zoomOut'' [2]] 1))"
  using cursor_invariant
          [where st = "demoSession [demoEntry ''zoomIn'' [1], demoEntry ''zoomOut'' [2]] 1"
             and entry = "demoEntry ''applyBlur'' [4]" and sv = demoServices and w = "[]"
             and items = "[0, 5]" and prompt = "''zoom in''" and ?c0.0 = 0
             and err = "''host item is gone''"
             and r = "\<lparr> successful = 0, failed = 1 \<rparr>"
             and out = "Returned \<lparr> successful = 1, failed = 0 \<rparr>"]
  by (simp add: cursorInvariant_def demoSession_def handleUndo_finish_def writeToConsole_def)

text \<open>
  C3 as it is written has every operation preserve the invariant. Two undos that
  overlap do not: with one entry and cursor 0, a second undo started while the first
  waits for the undo service reads the same closure, so both pass the test and select
  the entry; when the service has answered both, each adds 1 to the current cursor,
  which ends at 2 with one entry in the history.
\<close>

theorem overlapping_undos_break_invariant:
  "cursorInvariant (demoSession [demoEntry ''zoomIn'' [1, 2]] 0) \<and>
   handleUndo_start (demoSession [demoEntry ''zoomIn'' [1, 2]] 0)
     = (demoSession [demoEntry ''zoomIn'' [1, 2]] 0 \<lparr> message := [AttemptingUndo 1 1 ''zoomIn''] \<rparr>,
        Some (demoEntry ''zoomIn'' [1, 2])) \<and>
   handleUndo_start
     (demoSession [demoEntry ''zoomIn'' [1, 2]] 0 \<lparr> message := [AttemptingUndo 1 1 ''zoomIn''] \<rparr>)
     = (demoSession [demoEntry ''zoomIn'' [1, 2]] 0
          \<lparr> message := [AttemptingUndo 1 1 ''zoomIn'', AttemptingUndo 1 1 ''zoomIn''] \<rparr>,
        Some (demoEntry ''zoomIn'' [1, 2])) \<and>
   executeUndo demoServices (demoEntry ''zoomIn'' [1, 2]) []
     = (Returned \<lparr> successful = 2, failed = 0 \<rparr>, [''undo zoomIn'']) \<and>
   executeUndo demoServices (demoEntry ''zoomIn'' [1, 2]) [''undo zoomIn'']
     = (Returned \<lparr> successful = 2, failed = 0 \<rparr>, [''undo zoomIn'', ''undo zoomIn'']) \<and>
   handleUndo_finish (Returned \<lparr> successful = 2, failed = 0 \<rparr>)
     (handleUndo_finish (Returned \<lparr> successful = 2, failed = 0 \<rparr>)
        (demoSession [demoEntry ''zoomIn'' [1, 2]] 0
           \<lparr> message := [AttemptingUndo 1 1 ''zoomIn'', AttemptingUndo 1 1 ''zoomIn''] \<rparr>))
     = demoSession [demoEntry ''zoomIn'' [1, 2]] 2
         \<lparr> message := [AttemptingUndo 1 1 ''zoomIn'', AttemptingUndo 1 1 ''zoomIn'',
                        UndoCompleted 2, UndoCompleted 2] \<rparr> \<and>
   \<not> cursorInvariant
       (demoSession [demoEntry ''zoomIn'' [1, 2]] 2
          \<lparr> message := [AttemptingUndo 1 1 ''zoomIn'', AttemptingUndo 1 1 ''zoomIn'',
                         UndoCompleted 2, UndoCompleted 2] \<rparr>)"
  by (simp add: demo_defs cursorInvariant_def js_index_def Let_def
        handleUndo_start_def handleUndo_finish_def writeToConsole_def)

section \<open>The editing actions\<close>

subsection \<open>Auxiliary facts\<close>

lemma applyEach_length_eq:
  "applyEach operation items tr = (oks, tr') \<Longrightarrow> length oks = length items"
  by (induction items arbitrary: tr oks tr') (auto split: prod.splits)

lemma applyEach_length: "length (fst (applyEach operation items tr)) = length items"
  using applyEach_length_eq[of operation items tr] by (cases "applyEach operation items tr") simp

lemma filter_id_Not_length:
  "length (filter id oks) + length (filter Not oks) = length oks"
  by (induction oks) auto

lemma zoomInLoop_applyEach:
  "zoomInLoop h items opts s f tr =
     (\<lparr> successful = s + length (filter id (fst (applyEach (\<lambda>item. zoomIn h item (Some opts)) items tr))),
        failed = f + length (filter Not (fst (applyEach (\<lambda>item. zoomIn h item (Some opts)) items tr))) \<rparr>,
      snd (applyEach (\<lambda>item. zoomIn h item (Some opts)) items tr))"
proof (induction items arbitrary: s f tr)
  case Nil
  show ?case by simp
next
  case (Cons item items)
  obtain ok tr' where z: "zoomIn h item (Some opts) tr = (ok, tr')"
    by (cases "zoomIn h item (Some opts) tr") auto
  show ?case
    using z Cons.IH[of "s + 1" f tr'] Cons.IH[of s "f + 1" tr']
    by (cases ok) (simp_all split: prod.splits)
qed

lemma zoomOutLoop_applyEach:
  "zoomOutLoop h items opts s f tr =
     (\<lparr> successful = s + length (filter id (fst (applyEach (\<lambda>item. zoomOut h item (Some opts)) items tr))),
        failed = f + length (filter Not (fst (applyEach (\<lambda>item. zoomOut h item (Some opts)) items tr))) \<rparr>,
      snd (applyEach (\<lambda>item. zoomOut h item (Some opts)) items tr))"
proof (induction items arbitrary: s f tr)
  case Nil
  show ?case by simp
next
  case (Cons item items)
  obtain ok tr' where z: "zoomOut h item (Some opts) tr = (ok, tr')"
    by (cases "zoomOut h item (Some opts) tr") auto
  show ?case
    using z Cons.IH[of "s + 1" f tr'] Cons.IH[of s "f + 1" tr']
    by (cases ok) (simp_all split: prod.splits)
qed

lemma copyOwnProperties_id: "copyOwnProperties options = options"
  by (cases options) (simp add: copyOwnProperties_def noOptions_def)

text \<open>
  Every run of \<^const>\<open>zoomIn\<close> ends in one of five ways: nothing requested, only the
  closing of an undo group requested (something threw), the start keyframe rejected,
  or both keyframes requested (the second accepted or not).
\<close>

lemma zoomIn_shapes:
  fixes h :: "('i, 'p) host"
  assumes z: "zoomIn h item options0 tr = (ok, tr')"
  defines "S \<equiv> (case startScale (orEmpty options0) of Some v \<Rightarrow> v | None \<Rightarrow> 100)"
      and "E \<equiv> (case endScale (orEmpty options0) of Some v \<Rightarrow> v | None \<Rightarrow> 150)"
      and "A \<equiv> (case animated (orEmpty options0) of Some b \<Rightarrow> b | None \<Rightarrow> False)"
      and "T \<equiv> (case startTime (orEmpty options0) of Some v \<Rightarrow> v | None \<Rightarrow> 0)"
  shows "(\<not> ok \<and> (tr' = tr \<or> tr' = tr @ [EndUndoGroup])) \<or>
         (\<exists>p cs cd m title.
            getMotionScaleParam h tr item = Returned (Some p) \<and>
            getClipInPoint h tr item = Returned (Some cs) \<and>
            getClipDuration h tr item = Returned (Some cd) \<and>
            ((\<not> ok \<and> tr' = tr @ [BeginUndoGroup title,
                                   AddKeyframe p (cs + T) (if A then S else E) m,
                                   EndUndoGroup]) \<or>
             tr' = tr @ [BeginUndoGroup title,
                         AddKeyframe p (cs + T) (if A then S else E) m,
                         AddKeyframe p (cs + T +
                            (case duration (orEmpty options0) of
                               None \<Rightarrow> cd | Some d \<Rightarrow> (if d = 0 then cd else d))) E m,
                         EndUndoGroup]))"
proof (cases "validateClip h tr item")
  case (Threw e)
  then show ?thesis using z by (simp add: zoomIn_def Let_def endUndoGroup_def)
next
  case v: (Returned validation)
  show ?thesis
  proof (cases "valid validation")
    case False
    then show ?thesis using z v by (simp add: zoomIn_def Let_def)
  next
    case valid: True
    show ?thesis
    proof (cases "getActiveProject h tr")
      case (Threw e)
      then show ?thesis using z v valid by (simp add: zoomIn_def Let_def endUndoGroup_def)
    next
      case pr: (Returned project)
      show ?thesis
      proof (cases project)
        case False
        then show ?thesis using z v valid pr by (simp add: zoomIn_def Let_def)
      next
        case project: True
        show ?thesis
        proof (cases "getMotionScaleParam h tr item")
          case (Threw e)
          then show ?thesis using z v valid pr project
            by (simp add: zoomIn_def Let_def endUndoGroup_def)
        next
          case sp: (Returned param0)
          show ?thesis
          proof (cases param0)
            case None
            then show ?thesis using z v valid pr project sp by (simp add: zoomIn_def Let_def)
          next
            case param: (Some p)
            note upto_param = v valid pr project sp param
            show ?thesis
            proof (cases "getClipDuration h tr item")
              case (Threw e)
              then show ?thesis using z upto_param
                by (simp add: zoomIn_def Let_def endUndoGroup_def)
            next
              case cd: (Returned cd0)
              show ?thesis
              proof (cases "getClipInPoint h tr item")
                case (Threw e)
                then show ?thesis using z upto_param cd
                  by (simp add: zoomIn_def Let_def endUndoGroup_def)
              next
                case cs: (Returned cs0)
                show ?thesis
                proof (cases "cd0 = None \<or> cs0 = None")
                  case True
                  then show ?thesis using z upto_param cd cs
                    by (auto simp: zoomIn_def Let_def split: option.splits)
                next
                  case False
                  then obtain cdv csv where some: "cd0 = Some cdv" "cs0 = Some csv" by auto
                  note upto_timing = upto_param cd cs some
                  show ?thesis
                  proof (cases "logClipInfo h tr item")
                    case (Threw e)
                    then show ?thesis using z upto_timing
                      by (simp add: zoomIn_def Let_def endUndoGroup_def)
                  next
                    case (Returned u)
                    then show ?thesis using z upto_timing
                      unfolding S_def E_def A_def T_def
                      by (auto simp: zoomIn_def Let_def endUndoGroup_def beginUndoGroup_def
                            addKeyframe_def split: if_splits)
                  qed
                qed
              qed
            qed
          qed
        qed
      qed
    qed
  qed
qed

lemma zoomIn_extends:
  "zoomIn h item options0 tr = (ok, tr') \<Longrightarrow> take (length tr) tr' = tr"
  using zoomIn_shapes[of h item options0 tr ok tr'] by auto

lemma zoomIn_values:
  fixes h :: "('i, 'p) host"
  assumes z: "zoomIn h item options0 tr = (ok, tr')"
  defines "S \<equiv> (case startScale (orEmpty options0) of Some v \<Rightarrow> v | None \<Rightarrow> 100)"
      and "E \<equiv> (case endScale (orEmpty options0) of Some v \<Rightarrow> v | None \<Rightarrow> 150)"
      and "A \<equiv> (case animated (orEmpty options0) of Some b \<Rightarrow> b | None \<Rightarrow> False)"
  shows "map snd (keyframes (drop (length tr) tr')) \<in>
           {[], [if A then S else E], [if A then S else E, E]}"
    and "ok \<Longrightarrow> map snd (keyframes (drop (length tr) tr')) = [if A then S else E, E]"
  using zoomIn_shapes[OF z] unfolding S_def E_def A_def by auto

lemma zoomIn_times:
  fixes h :: "('i, 'p) host"
  assumes z: "zoomIn h item options0 tr = (True, tr')"
  shows "\<exists>cs cd. getClipInPoint h tr item = Returned (Some cs) \<and>
                 getClipDuration h tr item = Returned (Some cd) \<and>
                 map fst (keyframes (drop (length tr) tr')) =
                   [cs + (case startTime (orEmpty options0) of Some v \<Rightarrow> v | None \<Rightarrow> 0),
                    cs + (case startTime (orEmpty options0) of Some v \<Rightarrow> v | None \<Rightarrow> 0) +
                      (case duration (orEmpty options0) of
                         None \<Rightarrow> cd | Some d \<Rightarrow> (if d = 0 then cd else d))]"
  using zoomIn_shapes[OF z] by auto

lemma zoomOut_zoomIn:
  "zoomOut h item options0 tr = zoomIn h item (Some (withZoomOutDefaults (orEmpty options0))) tr"
  by (cases "orEmpty options0")
     (simp add: zoomOut_def Let_def copyOwnProperties_id withZoomOutDefaults_def
           split: option.splits)



lemma zoomIn_throws:
  "validateClip h tr item = Threw e \<Longrightarrow> zoomIn h item options0 tr = (False, tr @ [EndUndoGroup])"
  by (simp add: zoomIn_def Let_def endUndoGroup_def)

lemma applyEach_all_false:
  assumes "\<And>item tr. \<exists>tr'. operation item tr = (False, tr')"
  shows "fst (applyEach operation items tr) = replicate (length items) False"
proof (induction items arbitrary: tr)
  case Nil
  show ?case by simp
next
  case (Cons item items)
  obtain tr' where "operation item tr = (False, tr')" using assms by blast
  then show ?case using Cons.IH[of tr'] by (cases "applyEach operation items tr'") simp
qed

lemma filter_replicate_False:
  "filter id (replicate n False) = []" "filter Not (replicate n False) = replicate n False"
  by (induction n) auto

text \<open>When the host throws on every clip, a batch still returns, with every item failed.\<close>

lemma batch_when_host_throws:
  fixes h :: "('i, 'p) host"
  assumes "\<forall>tr item. \<exists>e. validateClip h tr item = Threw e"
  shows "fst (zoomInBatch h items options0 tr) = \<lparr> successful = 0, failed = length items \<rparr>"
    and "fst (zoomOutBatch h items options0 tr) = \<lparr> successful = 0, failed = length items \<rparr>"
proof -
  have zi: "\<exists>tr'. zoomIn h item opts tr = (False, tr')" for item opts tr
    using assms zoomIn_throws[of h tr item _ opts] by metis
  then have zo: "\<exists>tr'. zoomOut h item opts tr = (False, tr')" for item opts tr
    by (simp add: zoomOut_zoomIn)
  have "fst (applyEach (\<lambda>item. zoomIn h item (Some (orEmpty options0))) items tr)
          = replicate (length items) False"
    by (rule applyEach_all_false) (rule zi)
  then show "fst (zoomInBatch h items options0 tr) = \<lparr> successful = 0, failed = length items \<rparr>"
    by (simp add: zoomInBatch_def Let_def zoomInLoop_applyEach filter_replicate_False)
  have "fst (applyEach (\<lambda>item. zoomOut h item (Some (orEmpty options0))) items tr)
          = replicate (length items) False"
    by (rule applyEach_all_false) (rule zo)
  then show "fst (zoomOutBatch h items options0 tr) = \<lparr> successful = 0, failed = length items \<rparr>"
    by (simp add: zoomOutBatch_def Let_def zoomOutLoop_applyEach filter_replicate_False)
qed

subsection \<open>Batches\<close>

text \<open>
  C4. \<^const>\<open>zoomInBatch\<close> and \<^const>\<open>zoomOutBatch\<close> apply the operation to each of
  the \<open>N\<close> items in order, whatever the earlier items returned, and return the number
  \<open>s\<close> of items for which it returned true and the number \<open>f\<close> for which it returned
  false, with \<open>s + f = N\<close>; with 5 items of which exactly 2 fail the result is
  \<open>{successful: 3, failed: 2}\<close>. Nothing is thrown to the caller: \<^const>\<open>zoomIn\<close>
  turns every error of the host into the result false of the item, so a batch returns
  its counts for every host; when the host throws on every clip, they are \<open>0\<close> and \<open>N\<close>.
\<close>

theorem zoom_batch_counts:
  fixes h :: "('i, 'p) host"
  defines "each operation items tr \<equiv> fst (applyEach operation items tr)"
  shows
  "zoomInBatch h items options0 tr =
     (\<lparr> successful =
          length (filter id (each (\<lambda>item. zoomIn h item (Some (orEmpty options0))) items tr)),
        failed =
          length (filter Not (each (\<lambda>item. zoomIn h item (Some (orEmpty options0))) items tr)) \<rparr>,
      snd (applyEach (\<lambda>item. zoomIn h item (Some (orEmpty options0))) items tr)) \<and>
   zoomOutBatch h items options0 tr =
     (\<lparr> successful =
          length (filter id (each (\<lambda>item. zoomOut h item (Some (orEmpty options0))) items tr)),
        failed =
          length (filter Not (each (\<lambda>item. zoomOut h item (Some (orEmpty options0))) items tr)) \<rparr>,
      snd (applyEach (\<lambda>item. zoomOut h item (Some (orEmpty options0))) items tr)) \<and>
   length (each (\<lambda>item. zoomIn h item (Some (orEmpty options0))) items tr) = length items \<and>
   length (each (\<lambda>item. zoomOut h item (Some (orEmpty options0))) items tr) = length items \<and>
   successful (fst (zoomInBatch h items options0 tr))
     + failed (fst (zoomInBatch h items options0 tr)) = length items \<and>
   successful (fst (zoomOutBatch h items options0 tr))
     + failed (fst (zoomOutBatch h items options0 tr)) = length items \<and>
   (length items = 5 \<and>
    length (filter Not (each (\<lambda>item. zoomIn h item (Some (orEmpty options0))) items tr)) = 2
    \<longrightarrow> fst (zoomInBatch h items options0 tr) = \<lparr> successful = 3, failed = 2 \<rparr>) \<and>
   (length items = 5 \<and>
    length (filter Not (each (\<lambda>item. zoomOut h item (Some (orEmpty options0))) items tr)) = 2
    \<longrightarrow> fst (zoomOutBatch h items options0 tr) = \<lparr> successful = 3, failed = 2 \<rparr>) \<and>
   ((\<forall>tr item. \<exists>e. validateClip h tr item = Threw e) \<longrightarrow>
      fst (zoomInBatch h items options0 tr) = \<lparr> successful = 0, failed = length items \<rparr> \<and>
      fst (zoomOutBatch h items options0 tr) = \<lparr> successful = 0, failed = length items \<rparr>)"
proof -
  let ?opts = "orEmpty options0"
  let ?I = "fst (applyEach (\<lambda>item. zoomIn h item (Some ?opts)) items tr)"
  let ?O = "fst (applyEach (\<lambda>item. zoomOut h item (Some ?opts)) items tr)"
  have inB: "zoomInBatch h items options0 tr =
      (\<lparr> successful = length (filter id ?I), failed = length (filter Not ?I) \<rparr>,
       snd (applyEach (\<lambda>item. zoomIn h item (Some ?opts)) items tr))"
    by (simp add: zoomInBatch_def Let_def zoomInLoop_applyEach)
  have outB: "zoomOutBatch h items options0 tr =
      (\<lparr> successful = length (filter id ?O), failed = length (filter Not ?O) \<rparr>,
       snd (applyEach (\<lambda>item. zoomOut h item (Some ?opts)) items tr))"
    by (simp add: zoomOutBatch_def Let_def zoomOutLoop_applyEach)
  have lenI: "length ?I = length items" and lenO: "length ?O = length items"
    by (rule applyEach_length)+
  have sumI: "length (filter id ?I) + length (filter Not ?I) = length items"
    using filter_id_Not_length[of ?I] lenI by simp
  have sumO: "length (filter id ?O) + length (filter Not ?O) = length items"
    using filter_id_Not_length[of ?O] lenO by simp
  have throws: "(\<forall>tr item. \<exists>e. validateClip h tr item = Threw e) \<longrightarrow>
      fst (zoomInBatch h items options0 tr) = \<lparr> successful = 0, failed = length items \<rparr> \<and>
      fst (zoomOutBatch h items options0 tr) = \<lparr> successful = 0, failed = length items \<rparr>"
    using batch_when_host_throws[of h items options0 tr] by blast
  show ?thesis
    unfolding each_def using inB outB lenI lenO sumI sumO throws by simp
qed

text \<open>
  On the example data: five clips, of which the clip 0 is invalid and the clip 4 rejects
  its keyframe; and three clips on the host whose every call throws.
\<close>

theorem zoom_batch_counts_witness:
  "fst (zoomInBatch demoHost [1, 0, 2, 4, 3] None []) = \<lparr> successful = 3, failed = 2 \<rparr> \<and>
   fst (zoomOutBatch demoHost [1, 0, 2, 4, 3] None []) = \<lparr> successful = 3, failed = 2 \<rparr> \<and>
   fst (applyEach (\<lambda>item. zoomIn demoHost item (Some noOptions)) [1, 0, 2, 4, 3] [])
     = [True, False, True, False, True] \<and>
   fst (zoomInBatch brokenHost [1, 2, 3] None []) = \<lparr> successful = 0, failed = 3 \<rparr> \<and>
   fst (zoomOutBatch brokenHost [1, 2, 3] None []) = \<lparr> successful = 0, failed = 3 \<rparr>"
  using zoom_batch_counts[of demoHost "[1, 0, 2, 4, 3]" None "[]"]
        zoom_batch_counts[of brokenHost "[1, 2, 3]" None "[]"]
  by (simp add: host_defs brokenHost_def)

subsection \<open>Keyframes of a zoom\<close>

text \<open>
  C5, as the code has it. A zoom requests at most two keyframes, the first at the start
  time and the second at the end time, and both when it succeeds. With \<open>animated\<close>
  true the first carries the start scale and the second the end scale: two different
  values exactly when the two scales differ. With \<open>animated\<close> false or absent both carry
  the end scale.
\<close>

theorem zoomIn_keyframe_scales:
  fixes h :: "('i, 'p) host"
  assumes z: "zoomIn h item options0 tr = (ok, tr')"
  defines "S \<equiv> (case startScale (orEmpty options0) of Some v \<Rightarrow> v | None \<Rightarrow> 100)"
      and "E \<equiv> (case endScale (orEmpty options0) of Some v \<Rightarrow> v | None \<Rightarrow> 150)"
      and "written \<equiv> keyframes (drop (length tr) tr')"
  shows
  "take (length tr) tr' = tr \<and>
   (animated (orEmpty options0) = Some True \<longrightarrow>
      map snd written \<in> {[], [S], [S, E]} \<and> (ok \<longrightarrow> map snd written = [S, E])) \<and>
   (animated (orEmpty options0) = Some False \<or> animated (orEmpty options0) = None \<longrightarrow>
      map snd written \<in> {[], [E], [E, E]} \<and> (ok \<longrightarrow> map snd written = [E, E])) \<and>
   (ok \<longrightarrow>
      (\<exists>cs cd. getClipInPoint h tr item = Returned (Some cs) \<and>
               getClipDuration h tr item = Returned (Some cd) \<and>
               map fst written =
                 [cs + (case startTime (orEmpty options0) of Some v \<Rightarrow> v | None \<Rightarrow> 0),
                  cs + (case startTime (orEmpty options0) of Some v \<Rightarrow> v | None \<Rightarrow> 0) +
                    (case duration (orEmpty options0) of
                       None \<Rightarrow> cd | Some d \<Rightarrow> (if d = 0 then cd else d))])) \<and>
   (ok \<and> animated (orEmpty options0) = Some True \<longrightarrow>
      (distinct (map snd written) \<longleftrightarrow> S \<noteq> E))"
proof -
  note v = zoomIn_values[OF z]
  have ext: "take (length tr) tr' = tr" using z by (rule zoomIn_extends)
  have anim: "animated (orEmpty options0) = Some True \<Longrightarrow>
      map snd written \<in> {[], [S], [S, E]} \<and> (ok \<longrightarrow> map snd written = [S, E])"
    using v unfolding S_def E_def written_def by simp
  have static: "animated (orEmpty options0) = Some False \<or> animated (orEmpty options0) = None \<Longrightarrow>
      map snd written \<in> {[], [E], [E, E]} \<and> (ok \<longrightarrow> map snd written = [E, E])"
    using v unfolding S_def E_def written_def by auto
  have times: "ok \<Longrightarrow>
      (\<exists>cs cd. getClipInPoint h tr item = Returned (Some cs) \<and>
               getClipDuration h tr item = Returned (Some cd) \<and>
               map fst written =
                 [cs + (case startTime (orEmpty options0) of Some v \<Rightarrow> v | None \<Rightarrow> 0),
                  cs + (case startTime (orEmpty options0) of Some v \<Rightarrow> v | None \<Rightarrow> 0) +
                    (case duration (orEmpty options0) of
                       None \<Rightarrow> cd | Some d \<Rightarrow> (if d = 0 then cd else d))])"
    using zoomIn_times[of h item options0 tr tr'] z unfolding written_def by simp
  have dist: "ok \<and> animated (orEmpty options0) = Some True \<Longrightarrow>
      (distinct (map snd written) \<longleftrightarrow> S \<noteq> E)"
    using anim by auto
  show ?thesis using ext anim static times dist by blast
qed

text \<open>
  On the example data: an animated zoom with the default scales, and a static zoom
  with both scales given.
\<close>

theorem zoomIn_keyframe_scales_witness:
  "zoomIn demoHost 1 (Some (noOptions\<lparr> animated := Some True \<rparr>)) []
     = (True, [BeginUndoGroup ''ChatCut: Animated Zoom'', AddKeyframe 10 2 100 BEZIER,
               AddKeyframe 10 7 150 BEZIER, EndUndoGroup]) \<and>
   zoomIn demoHost 1 (Some (noOptions\<lparr> startScale := Some 80, endScale := Some 120 \<rparr>)) []
     = (True, [BeginUndoGroup ''ChatCut: Static Zoom'', AddKeyframe 10 2 120 BEZIER,
               AddKeyframe 10 7 120 BEZIER, EndUndoGroup]) \<and>
   map snd (keyframes [BeginUndoGroup ''ChatCut: Animated Zoom'', AddKeyframe (10::nat) 2 100 BEZIER,
               AddKeyframe 10 7 150 BEZIER, EndUndoGroup :: (nat, nat) request]) = [100, 150]"
  using zoomIn_keyframe_scales
          [of demoHost 1 "Some (noOptions\<lparr> animated := Some True \<rparr>)" "[]" True
              "[BeginUndoGroup ''ChatCut: Animated Zoom'', AddKeyframe 10 2 100 BEZIER,
                AddKeyframe 10 7 150 BEZIER, EndUndoGroup]"]
        zoomIn_keyframe_scales
          [of demoHost 1 "Some (noOptions\<lparr> startScale := Some 80, endScale := Some 120 \<rparr>)" "[]"
              True
              "[BeginUndoGroup ''ChatCut: Static Zoom'', AddKeyframe 10 2 120 BEZIER,
                AddKeyframe 10 7 120 BEZIER, EndUndoGroup]"]
  by (simp add: host_defs)

text \<open>
  C5 as it is written asks for two distinct values whenever \<open>animated\<close> is true. They
  need not be: an end scale of 100 meets the default start scale of 100, and two equal
  scales may be given.
\<close>

theorem zoomIn_animated_same_value:
  "zoomIn demoHost 1 (Some (noOptions\<lparr> endScale := Some 100, animated := Some True \<rparr>)) []
     = (True, [BeginUndoGroup ''ChatCut: Animated Zoom'', AddKeyframe 10 2 100 BEZIER,
               AddKeyframe 10 7 100 BEZIER, EndUndoGroup]) \<and>
   zoomIn demoHost 1
      (Some (noOptions\<lparr> startScale := Some 120, endScale := Some 120, animated := Some True \<rparr>)) []
     = (True, [BeginUndoGroup ''ChatCut: Animated Zoom'', AddKeyframe 10 2 120 BEZIER,
               AddKeyframe 10 7 120 BEZIER, EndUndoGroup])"
  by (simp add: host_defs)

subsection \<open>Defaults\<close>



subsection \<open>Zoom out\<close>

text \<open>
  C9. \<^const>\<open>zoomOut\<close> returns what \<^const>\<open>zoomIn\<close> returns on the same options with
  \<open>startScale\<close> defaulting to 150 and \<open>endScale\<close> to 100; scales that are present are
  passed through, so that with both scales given the two functions do the same.
\<close>

theorem zoomOut_refines_zoomIn:
  fixes h :: "('i, 'p) host"
  shows
  "zoomOut h item options0 tr
     = zoomIn h item (Some (withZoomOutDefaults (orEmpty options0))) tr \<and>
   (startScale options \<noteq> None \<and> endScale options \<noteq> None \<longrightarrow>
      zoomOut h item (Some options) tr = zoomIn h item (Some options) tr)"
proof (intro conjI impI)
  show "zoomOut h item options0 tr
     = zoomIn h item (Some (withZoomOutDefaults (orEmpty options0))) tr"
    by (rule zoomOut_zoomIn)
  assume "startScale options \<noteq> None \<and> endScale options \<noteq> None"
  then have "withZoomOutDefaults options = options"
    by (cases options) (auto simp: withZoomOutDefaults_def)
  then show "zoomOut h item (Some options) tr = zoomIn h item (Some options) tr"
    using zoomOut_zoomIn[of h item "Some options" tr] by (simp add: orEmpty_def)
qed

text \<open>
  On the example data: no options, and both scales given.
\<close>

theorem zoomOut_refines_zoomIn_witness:
  "zoomOut demoHost 1 None []
     = (True, [BeginUndoGroup ''ChatCut: Static Zoom'', AddKeyframe 10 2 100 BEZIER,
               AddKeyframe 10 7 100 BEZIER, EndUndoGroup]) \<and>
   zoomOut demoHost 1
      (Some (noOptions\<lparr> startScale := Some 130, endScale := Some 90, animated := Some True \<rparr>)) []
     = zoomIn demoHost 1
      (Some (noOptions\<lparr> startScale := Some 130, endScale := Some 90, animated := Some True \<rparr>)) []"
  using zoomOut_refines_zoomIn
          [of demoHost 1 None "[]"
              "noOptions\<lparr> startScale := Some 130, endScale := Some 90, animated := Some True \<rparr>"]
  by (simp add: host_defs withZoomOutDefaults_def)

section \<open>The result of a provider\<close>

text \<open>
  C7. For every result of the \<^verbatim>\<open>processPrompt\<close> of a provider, exactly one of
  "the action is present", "the actions are not empty" and "the error is present"
  holds, and whenever the error is present the confidence is 0.0.
\<close>

theorem actionResult_invariant:
  "exactlyOne (r_action (providerProcessPrompt p promptText catalog media) \<noteq> None)
              (r_actions (providerProcessPrompt p promptText catalog media) \<noteq> [])
              (r_error (providerProcessPrompt p promptText catalog media) \<noteq> None) \<and>
   (r_error (providerProcessPrompt p promptText catalog media) \<noteq> None \<longrightarrow>
      r_confidence (providerProcessPrompt p promptText catalog media) = 0.0)"
  by (cases "answer p promptText catalog media")
     (simp_all add: providerProcessPrompt_def failureResult_def exactlyOne_def)

text \<open>
  On the example data: a greeting, one extracted operation, and a provider without
  credentials.
\<close>

theorem actionResult_invariant_witness:
  "providerProcessPrompt demoProvider ''hello'' [] []
     = \<lparr> r_action = None, r_actions = [], r_parameters = None, r_confidence = 0,
         r_message = Some ''Hi!'', r_error = Some ''SMALL_TALK'' \<rparr> \<and>
   r_action (providerProcessPrompt demoProvider ''zoom in by 120%'' [] []) = Some ''zoomIn'' \<and>
   r_error (providerProcessPrompt demoProvider ''zoom in by 120%'' [] []) = None \<and>
   r_actions (providerProcessPrompt (demoProvider\<lparr> isConfigured := False \<rparr>) ''zoom in'' [] []) = [] \<and>
   r_confidence (providerProcessPrompt (demoProvider\<lparr> isConfigured := False \<rparr>) ''zoom in'' [] [])
     = 0"
  using actionResult_invariant[of demoProvider "''hello''" "[]" "[]"]
        actionResult_invariant[of demoProvider "''zoom in by 120%''" "[]" "[]"]
        actionResult_invariant[of "demoProvider\<lparr> isConfigured := False \<rparr>" "''zoom in''" "[]" "[]"]
  by (simp add: providerProcessPrompt_def failureResult_def demoProvider_def exactlyOne_def)

end
